theory Spec2Isabelle
  imports Main "HOL-Library.Word" "HOL-Library.AList" "HOL-Library.Sublist"
begin

section \<open>JavaScript values used by the CDN\<close>

text \<open>
  Strings are lists of code units; the model covers the code units 0..255, which is what
  \<^typ>\<open>char\<close> holds. Numbers are modelled by the integers among them.
\<close>

type_synonym byte = "8 word"

text \<open>An \<open>ArrayBuffer\<close> is its sequence of bytes.\<close>

type_synonym ArrayBuffer = "byte list"

text \<open>
  A \<open>Uint8Array\<close> is a view on an \<open>ArrayBuffer\<close>: \<open>u8_length\<close> elements starting at
  \<open>u8_byteOffset\<close>. The model holds the contents of the underlying buffer at the time of the
  call; it does not follow later writes through another reference to the same buffer.
\<close>

record Uint8Array =
  u8_buffer :: ArrayBuffer
  u8_byteOffset :: nat
  u8_length :: nat

definition u8_wf :: "Uint8Array \<Rightarrow> bool" where
  "u8_wf a = (u8_byteOffset a + u8_length a \<le> length (u8_buffer a))"

text \<open>\<open>Array.from(bytes)\<close>: the elements the view shows.\<close>

definition u8_elems :: "Uint8Array \<Rightarrow> byte list" where
  "u8_elems a = take (u8_length a) (drop (u8_byteOffset a) (u8_buffer a))"

text \<open>\<open>new Uint8Array(buffer)\<close>: the view of the whole buffer.\<close>

definition new_Uint8Array :: "ArrayBuffer \<Rightarrow> Uint8Array" where
  "new_Uint8Array b = \<lparr>u8_buffer = b, u8_byteOffset = 0, u8_length = length b\<rparr>"

text \<open>The parameter type \<open>ArrayBuffer | Uint8Array\<close>.\<close>

datatype Content = OfArrayBuffer ArrayBuffer | OfUint8Array Uint8Array

text \<open>\<open>content instanceof ArrayBuffer ? new Uint8Array(content) : content\<close>\<close>

fun to_Uint8Array :: "Content \<Rightarrow> Uint8Array" where
  "to_Uint8Array (OfArrayBuffer b) = new_Uint8Array b"
| "to_Uint8Array (OfUint8Array a) = a"

text \<open>
  A value read from an object of the program: a string, or a member that every object
  literal inherits from \<open>Object.prototype\<close> (named by its key).
\<close>

datatype jsval = JString string | JInherited string

text \<open>Truthiness, as \<open>||\<close> and \<open>? :\<close> test it: the empty string is falsy, an object is truthy.\<close>

fun truthy :: "jsval \<Rightarrow> bool" where
  "truthy (JString s) = (s \<noteq> [])"
| "truthy (JInherited k) = True"

text \<open>
  An optional property of an object: not there, there with the value \<open>undefined\<close>, or there
  with a value. Reading it gives \<open>undefined\<close> in the first two cases; an object spread copies
  it in the last two.
\<close>

datatype 'a jsprop = Absent | Undefined | Val 'a

fun rd :: "'a jsprop \<Rightarrow> 'a option" where
  "rd (Val v) = Some v"
| "rd Undefined = None"
| "rd Absent = None"

text \<open>A property written from a value that may be \<open>undefined\<close>.\<close>

fun wr :: "'a option \<Rightarrow> 'a jsprop" where
  "wr None = Undefined"
| "wr (Some v) = Val v"

text \<open>\<open>{p: d, ...o}\<close> for one property: the spread object's own property replaces the default.\<close>

fun spread_over :: "'a jsprop \<Rightarrow> 'a jsprop \<Rightarrow> 'a jsprop" where
  "spread_over d Absent = d"
| "spread_over d Undefined = Undefined"
| "spread_over d (Val v) = Val v"

subsection \<open>String operations\<close>

text \<open>\<open>s.split(sep)\<close> for a one-character separator.\<close>

fun split :: "char \<Rightarrow> string \<Rightarrow> string list" where
  "split sep [] = [[]]"
| "split sep (c # cs) =
     (if c = sep then [] # split sep cs
      else (case split sep cs of
              [] \<Rightarrow> [[c]]
            | x # xs \<Rightarrow> (c # x) # xs))"

text \<open>\<open>xs.pop()\<close>: the last element, \<open>undefined\<close> on an empty array.\<close>

definition pop :: "'a list \<Rightarrow> 'a option" where
  "pop xs = (if xs = [] then None else Some (last xs))"

text \<open>\<open>s.toLowerCase()\<close> on the code units 0..255: A-Z and the capital letters of Latin-1.\<close>

definition toLowerCase_char :: "char \<Rightarrow> char" where
  "toLowerCase_char c =
     (let n = (of_char c :: nat)
      in if (65 \<le> n \<and> n \<le> 90) \<or> (192 \<le> n \<and> n \<le> 222 \<and> n \<noteq> 215)
         then char_of (n + 32) else c)"

definition toLowerCase :: "string \<Rightarrow> string" where
  "toLowerCase s = map toLowerCase_char s"

text \<open>\<open>s.startsWith(p)\<close>\<close>

definition startsWith :: "string \<Rightarrow> string \<Rightarrow> bool" where
  "startsWith s p = prefix p s"

text \<open>\<open>s.replace(pat, rep)\<close> for a string pattern: the first occurrence only.\<close>

fun replace :: "string \<Rightarrow> string \<Rightarrow> string \<Rightarrow> string" where
  "replace [] pat rep = (if pat = [] then rep else [])"
| "replace (c # cs) pat rep =
     (if prefix pat (c # cs) then rep @ drop (length pat) (c # cs)
      else c # replace cs pat rep)"

section \<open>types.ts\<close>

text \<open>The own properties of \<open>CONTENT_TYPES\<close>.\<close>

definition CONTENT_TYPES :: "(string \<times> string) list" where
  "CONTENT_TYPES =
    [(''jpg'', ''image/jpeg''), (''jpeg'', ''image/jpeg''), (''png'', ''image/png''),
     (''gif'', ''image/gif''), (''webp'', ''image/webp''), (''svg'', ''image/svg+xml''),
     (''ico'', ''image/x-icon''),
     (''pdf'', ''application/pdf''), (''json'', ''application/json''),
     (''xml'', ''application/xml''), (''txt'', ''text/plain''), (''html'', ''text/html''),
     (''css'', ''text/css''), (''csv'', ''text/csv''),
     (''js'', ''application/javascript''), (''mjs'', ''application/javascript''),
     (''ts'', ''application/typescript''), (''wasm'', ''application/wasm''),
     (''zip'', ''application/zip''), (''gz'', ''application/gzip''),
     (''tar'', ''application/x-tar''),
     (''mp3'', ''audio/mpeg''), (''mp4'', ''video/mp4''), (''webm'', ''video/webm''),
     (''ogg'', ''audio/ogg''),
     (''woff'', ''font/woff''), (''woff2'', ''font/woff2''), (''ttf'', ''font/ttf''),
     (''otf'', ''font/otf'')]"

text \<open>
  \<open>CONTENT_TYPES\<close> is an object literal, so a property read that finds no own property
  goes on to \<open>Object.prototype\<close>. These are its keys.
\<close>

definition Object_prototype_keys :: "string list" where
  "Object_prototype_keys =
    [''constructor'', ''__defineGetter__'', ''__defineSetter__'', ''hasOwnProperty'',
     ''__lookupGetter__'', ''__lookupSetter__'', ''isPrototypeOf'',
     ''propertyIsEnumerable'', ''toString'', ''valueOf'', ''__proto__'',
     ''toLocaleString'']"

text \<open>\<open>CONTENT_TYPES[key]\<close>; \<open>None\<close> is \<open>undefined\<close>.\<close>

definition CONTENT_TYPES_get :: "string \<Rightarrow> jsval option" where
  "CONTENT_TYPES_get k =
     (case map_of CONTENT_TYPES k of
        Some v \<Rightarrow> Some (JString v)
      | None \<Rightarrow> (if k \<in> set Object_prototype_keys then Some (JInherited k) else None))"

text \<open>
  \<open>const ext = filename.split('.').pop()?.toLowerCase();\<close>
  \<open>return ext ? (CONTENT_TYPES[ext] || defaultType) : defaultType;\<close>
\<close>

definition detectContentType :: "string \<Rightarrow> string \<Rightarrow> jsval" where
  "detectContentType filename defaultType =
     (case map_option toLowerCase (pop (split CHR ''.'' filename)) of
        None \<Rightarrow> JString defaultType
      | Some ext \<Rightarrow>
          (if ext \<noteq> [] then
             (case CONTENT_TYPES_get ext of
                None \<Rightarrow> JString defaultType
              | Some v \<Rightarrow> (if truthy v then v else JString defaultType))
           else JString defaultType))"

text \<open>The default of the second parameter of \<open>detectContentType\<close>.\<close>

definition default_defaultType :: string where
  "default_defaultType = ''application/octet-stream''"


text \<open>
  \<open>ArtifactMetadata\<close>: every property is optional. \<open>customMetadata\<close> is a record of strings,
  kept as the list of its entries.
\<close>

record ArtifactMetadata =
  md_contentType :: "jsval jsprop"
  md_filename :: "string jsprop"
  md_size :: "int jsprop"
  md_uploadedAt :: "int jsprop"
  md_customMetadata :: "(string \<times> string) list jsprop"

text \<open>The object literal \<open>{}\<close> as metadata.\<close>

definition no_metadata :: ArtifactMetadata where
  "no_metadata =
     \<lparr>md_contentType = Absent, md_filename = Absent, md_size = Absent,
      md_uploadedAt = Absent, md_customMetadata = Absent\<rparr>"

text \<open>A parameter \<open>metadata = {}\<close>: the default stands in for an omitted argument.\<close>

definition metadata_or_default :: "ArtifactMetadata option \<Rightarrow> ArtifactMetadata" where
  "metadata_or_default m = (case m of None \<Rightarrow> no_metadata | Some md \<Rightarrow> md)"

text \<open>
  \<open>StoredArtifact\<close>. The body is an \<open>ArrayBuffer\<close> or a \<open>Uint8Array\<close>; streams, which only the
  R2 adapter returns, are outside the model.
\<close>

record StoredArtifact =
  art_hash :: string
  art_body :: Content
  art_metadata :: ArtifactMetadata

record UploadResult =
  res_hash :: string
  res_url :: string
  res_created :: bool
  res_metadata :: ArtifactMetadata

text \<open>What a rejected promise carries: an \<open>Error\<close> with its message, or some other value.\<close>

datatype thrown = Error string | NonError

text \<open>The options of \<open>list\<close>.\<close>

record ListOptions =
  lo_limit :: "int option"
  lo_cursor :: "string option"

text \<open>
  \<open>StorageAdapter\<close>: the operations a backend provides, over the backend's state \<open>'s\<close>.
  An operation that throws gives \<open>Inl\<close>; the backends modelled here leave the state as it was
  when they throw, and do not change it when they read. \<open>put\<close> takes the reading of
  \<open>Date.now()\<close> that the backend makes. \<open>list\<close> is optional.
\<close>

record 's StorageAdapter =
  sa_put :: "string \<Rightarrow> Content \<Rightarrow> ArtifactMetadata option \<Rightarrow> int \<Rightarrow> 's \<Rightarrow> thrown + 's"
  sa_get :: "string \<Rightarrow> 's \<Rightarrow> thrown + StoredArtifact option"
  sa_delete :: "string \<Rightarrow> 's \<Rightarrow> thrown + bool \<times> 's"
  sa_exists :: "string \<Rightarrow> 's \<Rightarrow> thrown + bool"
  sa_list :: "(ListOptions option \<Rightarrow> 's \<Rightarrow> thrown + string list) option"

record 's CDNOptions =
  opt_storage :: "'s StorageAdapter"
  opt_baseUrl :: string
  opt_cacheMaxAge :: "int option"
  opt_defaultContentType :: "string option"
  opt_cors :: "bool option"

section \<open>adapters/MemoryStorage.ts\<close>

text \<open>The value type of the map: \<open>{ content: Uint8Array; metadata: ArtifactMetadata }\<close>.\<close>

record Stored =
  st_content :: Uint8Array
  st_metadata :: ArtifactMetadata

text \<open>
  The field \<open>storage\<close>, a \<open>Map\<close>: its entries in insertion order. \<open>Map.set\<close> on a key that is
  there replaces the value where it stands, on a new key it appends (\<^const>\<open>AList.update\<close>);
  \<open>Map.delete\<close> removes the entry (\<^const>\<open>AList.delete\<close>); \<open>Map.get\<close> is \<^const>\<open>map_of\<close>.
\<close>

type_synonym MemoryStorage = "(string \<times> Stored) list"

definition Map_has :: "('k \<times> 'v) list \<Rightarrow> 'k \<Rightarrow> bool" where
  "Map_has m k = (k \<in> set (map fst m))"

text \<open>\<open>new MemoryStorage()\<close>\<close>

definition MemoryStorage_new :: MemoryStorage where
  "MemoryStorage_new = []"

definition MemoryStorage_put ::
  "string \<Rightarrow> Content \<Rightarrow> ArtifactMetadata option \<Rightarrow> int \<Rightarrow> MemoryStorage \<Rightarrow> MemoryStorage" where
  "MemoryStorage_put hash content metadata now st =
     (let md = metadata_or_default metadata;
          bytes = to_Uint8Array content
      in AList.update hash
           \<lparr>st_content = bytes,
            st_metadata = md
              \<lparr>md_size := spread_over (Val (int (u8_length bytes))) (md_size md),
               md_uploadedAt := spread_over (Val now) (md_uploadedAt md)\<rparr>\<rparr>
           st)"

definition MemoryStorage_get :: "string \<Rightarrow> MemoryStorage \<Rightarrow> StoredArtifact option" where
  "MemoryStorage_get hash st =
     (case map_of st hash of
        None \<Rightarrow> None
      | Some stored \<Rightarrow>
          Some \<lparr>art_hash = hash,
                art_body = OfArrayBuffer (u8_buffer (st_content stored)),
                art_metadata = st_metadata stored\<rparr>)"

definition MemoryStorage_delete :: "string \<Rightarrow> MemoryStorage \<Rightarrow> bool \<times> MemoryStorage" where
  "MemoryStorage_delete hash st = (Map_has st hash, AList.delete hash st)"

definition MemoryStorage_exists :: "string \<Rightarrow> MemoryStorage \<Rightarrow> bool" where
  "MemoryStorage_exists hash st = Map_has st hash"

text \<open>\<open>xs.slice(b, e)\<close>: a negative index counts from the end.\<close>

definition slice_index :: "nat \<Rightarrow> int \<Rightarrow> nat" where
  "slice_index len i = (if i < 0 then nat (int len + i) else min (nat i) len)"

definition slice :: "'a list \<Rightarrow> int \<Rightarrow> int \<Rightarrow> 'a list" where
  "slice xs b e =
     (let k = slice_index (length xs) b; f = slice_index (length xs) e
      in take (f - k) (drop k xs))"

definition MemoryStorage_list :: "ListOptions option \<Rightarrow> MemoryStorage \<Rightarrow> string list" where
  "MemoryStorage_list options st =
     (let opts = (case options of None \<Rightarrow> \<lparr>lo_limit = None, lo_cursor = None\<rparr> | Some opts \<Rightarrow> opts);
          hashes = map fst st;
          limit = (case lo_limit opts of None \<Rightarrow> 1000 | Some l \<Rightarrow> l)
      in slice hashes 0 limit)"

definition MemoryStorage_clear :: "MemoryStorage \<Rightarrow> MemoryStorage" where
  "MemoryStorage_clear st = []"

definition MemoryStorage_size :: "MemoryStorage \<Rightarrow> nat" where
  "MemoryStorage_size st = length st"

text \<open>\<open>MemoryStorage\<close> as a \<open>StorageAdapter\<close>; none of its methods throws.\<close>

definition MemoryStorage_adapter :: "MemoryStorage StorageAdapter" where
  "MemoryStorage_adapter =
     \<lparr>sa_put = (\<lambda>hash content metadata now st. Inr (MemoryStorage_put hash content metadata now st)),
      sa_get = (\<lambda>hash st. Inr (MemoryStorage_get hash st)),
      sa_delete = (\<lambda>hash st. Inr (MemoryStorage_delete hash st)),
      sa_exists = (\<lambda>hash st. Inr (MemoryStorage_exists hash st)),
      sa_list = Some (\<lambda>options st. Inr (MemoryStorage_list options st))\<rparr>"

text \<open>The states a \<open>MemoryStorage\<close> can get into from \<open>new MemoryStorage()\<close>.\<close>

inductive reachable :: "MemoryStorage \<Rightarrow> bool" where
  reachable_new: "reachable MemoryStorage_new"
| reachable_put: "reachable st \<Longrightarrow> reachable (MemoryStorage_put hash content metadata now st)"
| reachable_delete: "reachable st \<Longrightarrow> reachable (snd (MemoryStorage_delete hash st))"
| reachable_clear: "reachable st \<Longrightarrow> reachable (MemoryStorage_clear st)"

section \<open>CDN.ts\<close>

record 's CDN =
  cdn_storage :: "'s StorageAdapter"
  cdn_baseUrl :: string
  cdn_cacheMaxAge :: int
  cdn_defaultContentType :: string
  cdn_cors :: bool

text \<open>\<open>baseUrl.replace(/\/$/, '')\<close>: one slash at the end is removed.\<close>

definition strip_trailing_slash :: "string \<Rightarrow> string" where
  "strip_trailing_slash s = (if s \<noteq> [] \<and> last s = CHR ''/'' then butlast s else s)"

text \<open>The constructor.\<close>

definition CDN_new :: "'s CDNOptions \<Rightarrow> 's CDN" where
  "CDN_new options =
     \<lparr>cdn_storage = opt_storage options,
      cdn_baseUrl = strip_trailing_slash (opt_baseUrl options),
      cdn_cacheMaxAge = (case opt_cacheMaxAge options of None \<Rightarrow> 31536000 | Some n \<Rightarrow> n),
      cdn_defaultContentType =
        (case opt_defaultContentType options of
           None \<Rightarrow> ''application/octet-stream'' | Some t \<Rightarrow> t),
      cdn_cors = (case opt_cors options of None \<Rightarrow> True | Some b \<Rightarrow> b)\<rparr>"

text \<open>\<open>Array.from(bytes).map(b => String.fromCharCode(b)).join('')\<close>\<close>

definition bytes_to_string :: "Uint8Array \<Rightarrow> string" where
  "bytes_to_string bytes = map (\<lambda>b. char_of (unat b)) (u8_elems bytes)"

text \<open>
  \<open>metadata.contentType || (metadata.filename ? detectContentType(metadata.filename,
  this.defaultContentType) : this.defaultContentType)\<close>
\<close>

definition put_contentType :: "ArtifactMetadata \<Rightarrow> string \<Rightarrow> jsval" where
  "put_contentType md defaultContentType =
     (let from_filename =
            (case rd (md_filename md) of
               None \<Rightarrow> JString defaultContentType
             | Some f \<Rightarrow>
                 (if f \<noteq> [] then detectContentType f defaultContentType
                  else JString defaultContentType))
      in case rd (md_contentType md) of
           None \<Rightarrow> from_filename
         | Some c \<Rightarrow> (if truthy c then c else from_filename))"

text \<open>
  \<open>const ext = metadata.filename?.split('.').pop();\<close>
  \<open>const urlPath = ext ? `${hash}.${ext}` : hash;\<close>
\<close>

definition put_urlPath :: "ArtifactMetadata \<Rightarrow> string \<Rightarrow> string" where
  "put_urlPath md hash =
     (let ext = (case rd (md_filename md) of
                   None \<Rightarrow> None
                 | Some f \<Rightarrow> pop (split CHR ''.'' f))
      in case ext of
           None \<Rightarrow> hash
         | Some e \<Rightarrow> (if e \<noteq> [] then hash @ ''.'' @ e else hash))"

text \<open>
  \<open>CDN.put\<close>. \<open>sha256\<close> is the function imported from \<open>@sygnl/normalizer\<close>, a parameter of
  the model; \<open>now\<close> is the reading of \<open>Date.now()\<close> in \<open>put\<close>, \<open>now_s\<close> the one the storage
  adapter makes after it.
\<close>

definition CDN_put ::
  "(string \<Rightarrow> string) \<Rightarrow> 's CDN \<Rightarrow> Content \<Rightarrow> ArtifactMetadata option \<Rightarrow> int \<Rightarrow> int \<Rightarrow> 's
     \<Rightarrow> thrown + UploadResult \<times> 's" where
  "CDN_put sha256 cdn content metadata now now_s st =
     (let md = metadata_or_default metadata;
          bytes = to_Uint8Array content;
          hash = sha256 (bytes_to_string bytes)
      in case sa_exists (cdn_storage cdn) hash st of
           Inl e \<Rightarrow> Inl e
         | Inr existed \<Rightarrow>
             (let contentType = put_contentType md (cdn_defaultContentType cdn);
                  fullMetadata =
                    \<lparr>md_contentType = Val contentType,
                     md_filename = wr (rd (md_filename md)),
                     md_size = Val (int (u8_length bytes)),
                     md_uploadedAt = Val now,
                     md_customMetadata = wr (rd (md_customMetadata md))\<rparr>
              in case sa_put (cdn_storage cdn) hash (OfUint8Array bytes) (Some fullMetadata) now_s st of
                   Inl e \<Rightarrow> Inl e
                 | Inr st' \<Rightarrow>
                     Inr (\<lparr>res_hash = hash,
                           res_url = cdn_baseUrl cdn @ ''/a/'' @ put_urlPath md hash,
                           res_created = (\<not> existed),
                           res_metadata = fullMetadata\<rparr>, st')))"

definition CDN_get :: "'s CDN \<Rightarrow> string \<Rightarrow> 's \<Rightarrow> thrown + StoredArtifact option" where
  "CDN_get cdn hash st = sa_get (cdn_storage cdn) hash st"

definition CDN_delete :: "'s CDN \<Rightarrow> string \<Rightarrow> 's \<Rightarrow> thrown + bool \<times> 's" where
  "CDN_delete cdn hash st = sa_delete (cdn_storage cdn) hash st"

definition CDN_exists :: "'s CDN \<Rightarrow> string \<Rightarrow> 's \<Rightarrow> thrown + bool" where
  "CDN_exists cdn hash st = sa_exists (cdn_storage cdn) hash st"

definition CDN_list :: "'s CDN \<Rightarrow> ListOptions option \<Rightarrow> 's \<Rightarrow> thrown + string list" where
  "CDN_list cdn options st =
     (case sa_list (cdn_storage cdn) of
        None \<Rightarrow> Inl (Error ''Storage adapter does not support list()'')
      | Some list_fn \<Rightarrow> list_fn options st)"

subsection \<open>The request handler\<close>

text \<open>
  What \<open>handleRequest\<close> reads of a \<open>Request\<close>: the method, \<open>new URL(request.url).pathname\<close>,
  \<open>url.searchParams.get('filename')\<close>, the headers \<open>x-filename\<close> and \<open>content-type\<close>
  (\<open>None\<close> is \<open>null\<close>), and what \<open>request.arrayBuffer()\<close> resolves to.
\<close>

record Request =
  rq_method :: string
  rq_pathname :: string
  rq_query_filename :: "string option"
  rq_header_x_filename :: "string option"
  rq_header_content_type :: "string option"
  rq_arrayBuffer :: "thrown + ArrayBuffer"

text \<open>
  The body handed to \<open>new Response\<close>: none, a string, the artifact's body, or the value that
  \<open>JSON.stringify\<close> serialises.
\<close>

datatype ResponseBody =
    NoBody
  | TextBody string
  | ArtifactBody Content
  | JsonUploadResult UploadResult
  | JsonDeleted string
  | JsonError string

text \<open>A response: the status, the headers object handed to \<open>new Response\<close>, the body.\<close>

record Response =
  rs_status :: nat
  rs_headers :: "(string \<times> jsval) list"
  rs_body :: ResponseBody

text \<open>\<open>{...a, ...b}\<close> on the entries of two objects.\<close>

definition spread_objects :: "('k \<times> 'v) list \<Rightarrow> ('k \<times> 'v) list \<Rightarrow> ('k \<times> 'v) list" where
  "spread_objects a b = foldl (\<lambda>acc (k, v). AList.update k v acc) a b"

definition getCORSHeaders :: "'s CDN \<Rightarrow> (string \<times> jsval) list \<Rightarrow> (string \<times> jsval) list" where
  "getCORSHeaders cdn additionalHeaders =
     (if \<not> cdn_cors cdn then additionalHeaders
      else spread_objects
             [(''Access-Control-Allow-Origin'', JString ''*''),
              (''Access-Control-Allow-Methods'', JString ''GET, PUT, DELETE, OPTIONS''),
              (''Access-Control-Allow-Headers'', JString ''Content-Type, X-Filename''),
              (''Access-Control-Max-Age'', JString ''86400'')]
             additionalHeaders)"

text \<open>\<open>a || b\<close> on strings that may be \<open>null\<close>, and \<open>a || undefined\<close>.\<close>

definition or_string :: "string option \<Rightarrow> string option \<Rightarrow> string option" where
  "or_string a b = (case a of Some s \<Rightarrow> (if s \<noteq> [] then Some s else b) | None \<Rightarrow> b)"

definition or_undefined :: "string option \<Rightarrow> string option" where
  "or_undefined a = (case a of Some s \<Rightarrow> (if s \<noteq> [] then Some s else None) | None \<Rightarrow> None)"

text \<open>
  \<open>url.pathname.replace('/a/', '').split('.')[0]\<close>. \<open>split\<close> never returns an empty array
  (lemma \<open>split_not_Nil\<close>), so the first element is there.
\<close>

definition path_hash :: "string \<Rightarrow> string" where
  "path_hash pathname = hd (split CHR ''.'' (replace pathname ''/a/'' []))"

definition not_found :: "'s CDN \<Rightarrow> Response" where
  "not_found cdn = \<lparr>rs_status = 404, rs_headers = getCORSHeaders cdn [], rs_body = TextBody ''Not found''\<rparr>"

definition internal_server_error :: "'s CDN \<Rightarrow> Response" where
  "internal_server_error cdn =
     \<lparr>rs_status = 500, rs_headers = getCORSHeaders cdn [], rs_body = TextBody ''Internal server error''\<rparr>"

text \<open>The branch \<open>PUT /artifact\<close>.\<close>

definition handle_put ::
  "(string \<Rightarrow> string) \<Rightarrow> 's CDN \<Rightarrow> Request \<Rightarrow> int \<Rightarrow> int \<Rightarrow> 's \<Rightarrow> Response \<times> 's" where
  "handle_put sha256 cdn request now now_s st =
     (let failed = (\<lambda>e.
            (\<lparr>rs_status = 500,
              rs_headers = getCORSHeaders cdn [(''Content-Type'', JString ''application/json'')],
              rs_body = JsonError (case e of Error message \<Rightarrow> message | NonError \<Rightarrow> ''Upload failed'')\<rparr>,
             st))
      in case rq_arrayBuffer request of
           Inl e \<Rightarrow> failed e
         | Inr bytes \<Rightarrow>
             (let filename = or_string (rq_query_filename request) (or_undefined (rq_header_x_filename request));
                  contentType = or_undefined (rq_header_content_type request)
              in case CDN_put sha256 cdn (OfArrayBuffer bytes)
                        (Some (no_metadata
                           \<lparr>md_filename := wr filename,
                            md_contentType := wr (map_option JString contentType)\<rparr>))
                        now now_s st of
                   Inl e \<Rightarrow> failed e
                 | Inr (result, st') \<Rightarrow>
                     (\<lparr>rs_status = 200,
                       rs_headers = getCORSHeaders cdn [(''Content-Type'', JString ''application/json'')],
                       rs_body = JsonUploadResult result\<rparr>,
                      st')))"

text \<open>
  What the JavaScript engine decides: the text \<open>String(n)\<close> of a number, and the text of a
  member that an object inherits from \<open>Object.prototype\<close>, named by its key. They are
  parameters of the model.
\<close>

record Engine =
  eng_number_text :: "int \<Rightarrow> string"
  eng_member_text :: "string \<Rightarrow> string"

text \<open>The text of a header value handed to \<open>new Response\<close>.\<close>

definition header_text :: "Engine \<Rightarrow> jsval \<Rightarrow> string" where
  "header_text engine v = (case v of JString s \<Rightarrow> s | JInherited k \<Rightarrow> eng_member_text engine k)"

text \<open>
  The \<open>Headers\<close> of a response take a value after removing the HTTP whitespace (tab, LF, CR,
  space) at its two ends, and refuse it when a NUL, LF or CR is left in it. (They also
  refuse a code unit above 255, which the strings of the model do not have.)
\<close>

definition http_whitespace :: "char \<Rightarrow> bool" where
  "http_whitespace c \<longleftrightarrow> c = CHR 0x09 \<or> c = CHR 0x0A \<or> c = CHR 0x0D \<or> c = CHR 0x20"

definition normalize_header_value :: "string \<Rightarrow> string" where
  "normalize_header_value s = rev (dropWhile http_whitespace (rev (dropWhile http_whitespace s)))"

definition legal_header_value :: "string \<Rightarrow> bool" where
  "legal_header_value s =
     list_all (\<lambda>c. c \<noteq> CHR 0x00 \<and> c \<noteq> CHR 0x0A \<and> c \<noteq> CHR 0x0D) (normalize_header_value s)"

definition legal_headers :: "Engine \<Rightarrow> (string \<times> jsval) list \<Rightarrow> bool" where
  "legal_headers engine headers =
     list_all (\<lambda>(name, v). legal_header_value (header_text engine v)) headers"

text \<open>
  \<open>new Response(body, {status, headers})\<close> where the header values are not literals: it
  throws a \<open>TypeError\<close> when a header value is refused. The message of the error is the
  engine's; \<open>handleRequest\<close> does not read it. The other responses of \<open>handleRequest\<close> have
  literal header values, all taken (lemma \<open>literal_headers_legal\<close>).
\<close>

definition new_Response ::
  "Engine \<Rightarrow> ResponseBody \<Rightarrow> nat \<Rightarrow> (string \<times> jsval) list \<Rightarrow> thrown + Response" where
  "new_Response engine body status headers =
     (if legal_headers engine headers
      then Inr \<lparr>rs_status = status, rs_headers = headers, rs_body = body\<rparr>
      else Inl (Error ''Invalid header value''))"

text \<open>\<open>artifact.metadata.contentType || this.defaultContentType\<close>\<close>

definition response_contentType :: "'s CDN \<Rightarrow> StoredArtifact \<Rightarrow> jsval" where
  "response_contentType cdn artifact =
     (case rd (md_contentType (art_metadata artifact)) of
        None \<Rightarrow> JString (cdn_defaultContentType cdn)
      | Some c \<Rightarrow> (if truthy c then c else JString (cdn_defaultContentType cdn)))"

text \<open>The headers of the response to a \<open>GET\<close> that finds the artifact.\<close>

definition get_headers :: "Engine \<Rightarrow> 's CDN \<Rightarrow> string \<Rightarrow> StoredArtifact \<Rightarrow> (string \<times> jsval) list" where
  "get_headers engine cdn hash artifact =
     getCORSHeaders cdn
       [(''Content-Type'', response_contentType cdn artifact),
        (''Cache-Control'',
           JString (''public, max-age='' @ eng_number_text engine (cdn_cacheMaxAge cdn) @ '', immutable'')),
        (''ETag'', JString ([CHR 0x22] @ hash @ [CHR 0x22]))]"

text \<open>
  The branch \<open>GET /a/:hash(.ext)\<close>. The response is built inside the \<open>try\<close>: when
  \<open>this.get\<close> or \<open>new Response\<close> throws, the \<open>catch\<close> answers 500.
\<close>

definition handle_get :: "Engine \<Rightarrow> 's CDN \<Rightarrow> Request \<Rightarrow> 's \<Rightarrow> Response" where
  "handle_get engine cdn request st =
     (let hash = path_hash (rq_pathname request)
      in case CDN_get cdn hash st of
           Inl e \<Rightarrow> internal_server_error cdn
         | Inr None \<Rightarrow> not_found cdn
         | Inr (Some artifact) \<Rightarrow>
             (case new_Response engine (ArtifactBody (art_body artifact)) 200
                     (get_headers engine cdn hash artifact) of
                Inl e \<Rightarrow> internal_server_error cdn
              | Inr response \<Rightarrow> response))"

text \<open>The branch \<open>DELETE /a/:hash\<close>.\<close>

definition handle_delete :: "'s CDN \<Rightarrow> Request \<Rightarrow> 's \<Rightarrow> Response \<times> 's" where
  "handle_delete cdn request st =
     (let hash = path_hash (rq_pathname request)
      in case CDN_delete cdn hash st of
           Inl e \<Rightarrow> (internal_server_error cdn, st)
         | Inr (deleted, st') \<Rightarrow>
             (if \<not> deleted then (not_found cdn, st')
              else (\<lparr>rs_status = 200,
                     rs_headers = getCORSHeaders cdn [(''Content-Type'', JString ''application/json'')],
                     rs_body = JsonDeleted hash\<rparr>,
                    st')))"

definition CDN_handleRequest ::
  "(string \<Rightarrow> string) \<Rightarrow> Engine \<Rightarrow> 's CDN \<Rightarrow> Request \<Rightarrow> int \<Rightarrow> int \<Rightarrow> 's
     \<Rightarrow> Response \<times> 's" where
  "CDN_handleRequest sha256 engine cdn request now now_s st =
     (if rq_method request = ''PUT'' \<and> rq_pathname request = ''/artifact''
        then handle_put sha256 cdn request now now_s st
      else if rq_method request = ''GET'' \<and> startsWith (rq_pathname request) ''/a/''
        then (handle_get engine cdn request st, st)
      else if rq_method request = ''DELETE'' \<and> startsWith (rq_pathname request) ''/a/''
        then handle_delete cdn request st
      else if rq_method request = ''OPTIONS''
        then (\<lparr>rs_status = 204, rs_headers = getCORSHeaders cdn [], rs_body = NoBody\<rparr>, st)
      else (not_found cdn, st))"

section \<open>Scenarios\<close>

text \<open>\<open>cdn.get((await cdn.put(content, metadata)).hash)\<close>\<close>

definition put_then_get ::
  "(string \<Rightarrow> string) \<Rightarrow> 's CDN \<Rightarrow> Content \<Rightarrow> ArtifactMetadata option \<Rightarrow> int \<Rightarrow> int \<Rightarrow> 's
     \<Rightarrow> thrown + StoredArtifact option" where
  "put_then_get sha256 cdn content metadata now now_s st =
     (case CDN_put sha256 cdn content metadata now now_s st of
        Inl e \<Rightarrow> Inl e
      | Inr (result, st') \<Rightarrow> CDN_get cdn (res_hash result) st')"

text \<open>
  Calls of \<open>put\<close> with the same content, one after the other; each call has its metadata
  argument and its two readings of the clock. The results are returned in the order of the
  calls.
\<close>

fun CDN_put_seq ::
  "(string \<Rightarrow> string) \<Rightarrow> 's CDN \<Rightarrow> Content \<Rightarrow> (ArtifactMetadata option \<times> int \<times> int) list \<Rightarrow> 's
     \<Rightarrow> thrown + UploadResult list \<times> 's" where
  "CDN_put_seq sha256 cdn content [] st = Inr ([], st)"
| "CDN_put_seq sha256 cdn content ((metadata, now, now_s) # calls) st =
     (case CDN_put sha256 cdn content metadata now now_s st of
        Inl e \<Rightarrow> Inl e
      | Inr (result, st') \<Rightarrow>
          (case CDN_put_seq sha256 cdn content calls st' of
             Inl e \<Rightarrow> Inl e
           | Inr (results, st'') \<Rightarrow> Inr (result # results, st'')))"

text \<open>
  A storage adapter that counts the writes it receives: it hands every call to the adapter
  \<open>A\<close> and adds one to a counter for each \<open>put\<close> that \<open>A\<close> completes.
\<close>

definition counting :: "'s StorageAdapter \<Rightarrow> ('s \<times> nat) StorageAdapter" where
  "counting A =
     \<lparr>sa_put = (\<lambda>hash content metadata now (st, writes).
         (case sa_put A hash content metadata now st of
            Inl e \<Rightarrow> Inl e
          | Inr st' \<Rightarrow> Inr (st', Suc writes))),
      sa_get = (\<lambda>hash (st, writes). sa_get A hash st),
      sa_delete = (\<lambda>hash (st, writes).
         (case sa_delete A hash st of
            Inl e \<Rightarrow> Inl e
          | Inr (deleted, st') \<Rightarrow> Inr (deleted, (st', writes)))),
      sa_exists = (\<lambda>hash (st, writes). sa_exists A hash st),
      sa_list = map_option (\<lambda>list_fn options (st, writes). list_fn options st) (sa_list A)\<rparr>"

text \<open>
  What the result \<open>created\<close> of \<open>put\<close> relies on in a storage adapter: \<open>exists\<close> and \<open>put\<close>
  do not throw, and after \<open>put(hash, ...)\<close> the adapter's \<open>exists(hash)\<close> is true.
\<close>

definition put_then_exists :: "'s StorageAdapter \<Rightarrow> bool" where
  "put_then_exists A \<longleftrightarrow>
     (\<forall>hash st. \<exists>b. sa_exists A hash st = Inr b) \<and>
     (\<forall>hash content metadata now st.
        \<exists>st'. sa_put A hash content metadata now st = Inr st' \<and> sa_exists A hash st' = Inr True)"

text \<open>
  A stand-in for \<open>sha256\<close> to run the model on concrete inputs: two hexadecimal digits for
  each code unit of its argument.
\<close>

definition hex_digit :: "nat \<Rightarrow> char" where
  "hex_digit n = (if n < 10 then char_of (48 + n) else char_of (87 + n))"

definition hex_sha256 :: "string \<Rightarrow> string" where
  "hex_sha256 s = concat (map (\<lambda>c. [hex_digit (of_char c div 16), hex_digit (of_char c mod 16)]) s)"

text \<open>
  An engine to run the model on concrete inputs: \<open>String(n)\<close> as the decimal digits of
  \<open>n\<close>, which it is for an integer of magnitude below \<open>10^21\<close>, and the texts that V8 gives
  to the members of \<open>Object.prototype\<close>.
\<close>

fun digits :: "nat \<Rightarrow> string" where
  "digits n = (if n < 10 then [char_of (48 + n)] else digits (n div 10) @ [char_of (48 + n mod 10)])"

definition decimal_text :: "int \<Rightarrow> string" where
  "decimal_text i = (if i < 0 then CHR ''-'' # digits (nat (- i)) else digits (nat i))"

definition v8_member_text :: "string \<Rightarrow> string" where
  "v8_member_text k =
     (if k = ''__proto__'' then ''[object Object]''
      else ''function '' @ (if k = ''constructor'' then ''Object'' else k) @ ''() { [native code] }'')"

definition test_engine :: Engine where
  "test_engine = \<lparr>eng_number_text = decimal_text, eng_member_text = v8_member_text\<rparr>"

text \<open>The CDN of the test suite, over a \<open>MemoryStorage\<close>.\<close>

definition test_options :: "MemoryStorage CDNOptions" where
  "test_options =
     \<lparr>opt_storage = MemoryStorage_adapter, opt_baseUrl = ''https://cdn.example.com'',
      opt_cacheMaxAge = Some 3600, opt_defaultContentType = None, opt_cors = None\<rparr>"

definition test_cdn :: "MemoryStorage CDN" where
  "test_cdn = CDN_new test_options"

text \<open>The same CDN over a \<open>MemoryStorage\<close> whose writes are counted.\<close>

definition counting_cdn :: "(MemoryStorage \<times> nat) CDN" where
  "counting_cdn =
     CDN_new
       \<lparr>opt_storage = counting MemoryStorage_adapter, opt_baseUrl = ''https://cdn.example.com'',
        opt_cacheMaxAge = Some 3600, opt_defaultContentType = None, opt_cors = None\<rparr>"

text \<open>\<open>new Uint8Array([1, 2, 3]).subarray(1)\<close>: the bytes 2, 3 seen through a view of a longer buffer.\<close>

definition subarray_2_3 :: Uint8Array where
  "subarray_2_3 = \<lparr>u8_buffer = [1, 2, 3], u8_byteOffset = 1, u8_length = 2\<rparr>"

text \<open>
  A \<open>MemoryStorage\<close> after \<open>n\<close> calls \<open>put(key k, new Uint8Array([1]))\<close>, for \<open>k\<close> from 0 to
  \<open>n - 1\<close>; the key \<open>k\<close> is \<open>k + 1\<close> times the letter a.
\<close>

definition key_of :: "nat \<Rightarrow> string" where
  "key_of k = replicate (Suc k) CHR ''a''"

definition filled :: "nat \<Rightarrow> MemoryStorage" where
  "filled n = foldl (\<lambda>st k. MemoryStorage_put (key_of k) (OfArrayBuffer [1]) None 0 st) MemoryStorage_new [0..<n]"


section \<open>Properties\<close>

subsection \<open>Strings\<close>

lemma split_not_Nil: "split sep s \<noteq> []"
  by (induction s) (auto split: list.splits)

lemma hd_split_append: "sep \<notin> set h \<Longrightarrow> hd (split sep (h @ sep # s)) = h"
  by (induction h) (auto split: list.splits simp: split_not_Nil)

lemma hd_split_plain: "sep \<notin> set h \<Longrightarrow> hd (split sep h) = h"
  by (induction h) (auto split: list.splits simp: split_not_Nil)

lemma last_split_plain: "sep \<notin> set f \<Longrightarrow> split sep f = [f]"
  by (induction f) auto

lemma replace_prefix:
  assumes "pat \<noteq> []"
  shows "replace (pat @ s) pat rep = rep @ s"
proof -
  obtain c cs where eq: "pat @ s = c # cs"
    using assms by (cases "pat @ s") auto
  have "prefix pat (c # cs)"
    unfolding eq [symmetric] by simp
  then have "replace (c # cs) pat rep = rep @ drop (length pat) (c # cs)"
    by simp
  then show ?thesis
    unfolding eq [symmetric] by simp
qed

lemma path_hash_plain: "CHR ''.'' \<notin> set h \<Longrightarrow> path_hash (''/a/'' @ h) = h"
  using replace_prefix [of "''/a/''" h "[]"] by (simp add: path_hash_def hd_split_plain)

lemma path_hash_ext: "CHR ''.'' \<notin> set h \<Longrightarrow> path_hash (''/a/'' @ h @ ''.'' @ s) = h"
  using replace_prefix [of "''/a/''" "h @ ''.'' @ s" "[]"] hd_split_append [of "CHR ''.''" h s]
  by (simp add: path_hash_def)

lemma startsWith_a: "startsWith (''/a/'' @ s) ''/a/''"
  by (simp add: startsWith_def)

subsection \<open>Byte arrays\<close>

text \<open>For a view that lies within its buffer, \<open>bytes.length\<close> is the number of bytes it shows.\<close>

lemma length_u8_elems: "u8_wf a \<Longrightarrow> length (u8_elems a) = u8_length a"
  by (auto simp: u8_wf_def u8_elems_def)

lemma u8_wf_new: "u8_wf (new_Uint8Array b)"
  by (simp add: u8_wf_def new_Uint8Array_def)

subsection \<open>The memory adapter\<close>

lemma Map_has_map_of: "Map_has m k \<longleftrightarrow> map_of m k \<noteq> None"
  by (simp add: Map_has_def map_of_eq_None_iff)

lemma Map_has_update: "Map_has (AList.update k v m) k' \<longleftrightarrow> k' = k \<or> Map_has m k'"
  by (auto simp: Map_has_map_of update_conv')

lemma Map_has_delete: "Map_has (AList.delete k m) k' \<longleftrightarrow> k' \<noteq> k \<and> Map_has m k'"
  by (auto simp: Map_has_map_of delete_conv')

lemma exists_put:
  "MemoryStorage_exists h (MemoryStorage_put hash content metadata now st) \<longleftrightarrow>
     h = hash \<or> MemoryStorage_exists h st"
  by (simp add: MemoryStorage_exists_def MemoryStorage_put_def Let_def Map_has_update)

lemma get_put_same:
  "MemoryStorage_get hash (MemoryStorage_put hash content (Some md) now st) =
     Some \<lparr>art_hash = hash,
           art_body = OfArrayBuffer (u8_buffer (to_Uint8Array content)),
           art_metadata = md
             \<lparr>md_size := spread_over (Val (int (u8_length (to_Uint8Array content)))) (md_size md),
              md_uploadedAt := spread_over (Val now) (md_uploadedAt md)\<rparr>\<rparr>"
  by (simp add: MemoryStorage_get_def MemoryStorage_put_def Let_def update_conv' metadata_or_default_def)

lemma storage_test_cdn: "cdn_storage test_cdn = MemoryStorage_adapter"
  by (simp add: test_cdn_def CDN_new_def test_options_def)

lemma storage_counting_cdn: "cdn_storage counting_cdn = counting MemoryStorage_adapter"
  by (simp add: counting_cdn_def CDN_new_def)

text \<open>Over a \<open>MemoryStorage\<close>, \<open>put\<close> always returns: this is what it returns.\<close>

lemma CDN_put_MemoryStorage:
  assumes "cdn_storage cdn = MemoryStorage_adapter"
  shows "CDN_put sha256 cdn content metadata now now_s st =
    (let md = metadata_or_default metadata;
         bytes = to_Uint8Array content;
         hash = sha256 (bytes_to_string bytes);
         fullMetadata =
           \<lparr>md_contentType = Val (put_contentType md (cdn_defaultContentType cdn)),
            md_filename = wr (rd (md_filename md)),
            md_size = Val (int (u8_length bytes)),
            md_uploadedAt = Val now,
            md_customMetadata = wr (rd (md_customMetadata md))\<rparr>
     in Inr (\<lparr>res_hash = hash,
              res_url = cdn_baseUrl cdn @ ''/a/'' @ put_urlPath md hash,
              res_created = (\<not> MemoryStorage_exists hash st),
              res_metadata = fullMetadata\<rparr>,
             MemoryStorage_put hash (OfUint8Array bytes) (Some fullMetadata) now_s st))"
  by (simp add: CDN_put_def assms MemoryStorage_adapter_def Let_def)

lemma CDN_put_MemoryStorage_returns:
  "cdn_storage cdn = MemoryStorage_adapter \<Longrightarrow>
     \<exists>result st'. CDN_put sha256 cdn content metadata now now_s st = Inr (result, st')"
  by (simp add: CDN_put_MemoryStorage Let_def)

subsection \<open>\<open>CDN.list\<close>\<close>

text \<open>
  C9. \<open>CDN.list\<close> over an adapter without \<open>list\<close> fails with the error
  \<open>Storage adapter does not support list()\<close>, whatever the options, and so returns no list,
  not even an empty one; over an adapter with \<open>list\<close> it returns what the adapter's \<open>list\<close>
  returns for the same options.
\<close>

theorem CDN_list_unsupported_or_delegated:
  "(sa_list (cdn_storage cdn) = None \<longrightarrow>
      CDN_list cdn options st = Inl (Error ''Storage adapter does not support list()'') \<and>
      (\<forall>hashes. CDN_list cdn options st \<noteq> Inr hashes)) \<and>
   (\<forall>list_fn. sa_list (cdn_storage cdn) = Some list_fn \<longrightarrow>
      CDN_list cdn options st = list_fn options st)"
  by (simp add: CDN_list_def)

theorem CDN_list_unsupported_or_delegated_witness:
  "CDN_list (test_cdn\<lparr>cdn_storage := MemoryStorage_adapter\<lparr>sa_list := None\<rparr>\<rparr>) None (filled 2)
     = Inl (Error ''Storage adapter does not support list()'') \<and>
   CDN_list test_cdn (Some \<lparr>lo_limit = Some 1, lo_cursor = None\<rparr>) (filled 2) = Inr [''a'']"
proof -
  have none: "sa_list (cdn_storage (test_cdn\<lparr>cdn_storage := MemoryStorage_adapter\<lparr>sa_list := None\<rparr>\<rparr>)) = None"
    by simp
  have some: "sa_list (cdn_storage test_cdn) = Some (\<lambda>options st. Inr (MemoryStorage_list options st))"
    by (simp add: storage_test_cdn MemoryStorage_adapter_def)
  have run: "MemoryStorage_list (Some \<lparr>lo_limit = Some 1, lo_cursor = None\<rparr>) (filled 2) = [''a'']"
    by code_simp
  show ?thesis
    using CDN_list_unsupported_or_delegated
            [of "test_cdn\<lparr>cdn_storage := MemoryStorage_adapter\<lparr>sa_list := None\<rparr>\<rparr>" None "filled 2"]
          CDN_list_unsupported_or_delegated
            [of test_cdn "Some \<lparr>lo_limit = Some 1, lo_cursor = None\<rparr>" "filled 2"]
          none some run
    by simp
qed

subsection \<open>The digest that \<open>put\<close> returns\<close>

text \<open>
  C4. The digest that \<open>put\<close> returns is \<open>sha256\<close> of the string made of the bytes of the
  content, one code unit for each byte: two calls whose contents show the same bytes return
  the same digest, whatever the metadata arguments, the clock, the configuration and the
  state of the storage.
\<close>

theorem put_digest_of_bytes_only:
  assumes "CDN_put sha256 cdn1 content1 metadata1 now1 now_s1 st1 = Inr (result1, st1')"
    and "CDN_put sha256 cdn2 content2 metadata2 now2 now_s2 st2 = Inr (result2, st2')"
    and "u8_elems (to_Uint8Array content1) = u8_elems (to_Uint8Array content2)"
  shows "res_hash result1 = res_hash result2 \<and>
         res_hash result1 = sha256 (map (\<lambda>b. char_of (unat b)) (u8_elems (to_Uint8Array content1)))"
  using assms
  by (auto simp: CDN_put_def Let_def bytes_to_string_def split: sum.splits)

theorem put_digest_of_bytes_only_witness:
  "\<exists>result1 st1 result2 st2.
     CDN_put hex_sha256 test_cdn (OfArrayBuffer [1, 2, 3])
       (Some (no_metadata\<lparr>md_filename := Val ''x.png''\<rparr>)) 1000 1001 MemoryStorage_new
       = Inr (result1, st1) \<and>
     CDN_put hex_sha256 test_cdn (OfUint8Array \<lparr>u8_buffer = [0, 1, 2, 3], u8_byteOffset = 1, u8_length = 3\<rparr>)
       (Some (no_metadata\<lparr>md_filename := Val ''y.jpg'', md_contentType := Val (JString ''text/plain''),
                          md_customMetadata := Val [(''author'', ''John Doe'')]\<rparr>)) 2000 2001 st1
       = Inr (result2, st2) \<and>
     res_hash result1 = res_hash result2 \<and> res_hash result1 = ''010203''"
proof -
  obtain result1 st1 where p1:
    "CDN_put hex_sha256 test_cdn (OfArrayBuffer [1, 2, 3])
       (Some (no_metadata\<lparr>md_filename := Val ''x.png''\<rparr>)) 1000 1001 MemoryStorage_new
       = Inr (result1, st1)"
    using CDN_put_MemoryStorage_returns [OF storage_test_cdn] by blast
  obtain result2 st2 where p2:
    "CDN_put hex_sha256 test_cdn (OfUint8Array \<lparr>u8_buffer = [0, 1, 2, 3], u8_byteOffset = 1, u8_length = 3\<rparr>)
       (Some (no_metadata\<lparr>md_filename := Val ''y.jpg'', md_contentType := Val (JString ''text/plain''),
                          md_customMetadata := Val [(''author'', ''John Doe'')]\<rparr>)) 2000 2001 st1
       = Inr (result2, st2)"
    using CDN_put_MemoryStorage_returns [OF storage_test_cdn] by blast
  have same: "u8_elems (to_Uint8Array (OfArrayBuffer [1, 2, 3]))
      = u8_elems (to_Uint8Array (OfUint8Array \<lparr>u8_buffer = [0, 1, 2, 3], u8_byteOffset = 1, u8_length = 3\<rparr>))"
    by (simp add: u8_elems_def new_Uint8Array_def)
  have digest: "hex_sha256 (map (\<lambda>b. char_of (unat b)) (u8_elems (to_Uint8Array (OfArrayBuffer [1, 2, 3])))) = ''010203''"
    by code_simp
  show ?thesis
    using put_digest_of_bytes_only [OF p1 p2 same] p1 p2 digest by auto
qed

subsection \<open>\<open>put\<close>, then \<open>get\<close>\<close>

text \<open>Over a \<open>MemoryStorage\<close>, what \<open>get\<close> returns for the digest that \<open>put\<close> has returned.\<close>

lemma put_then_get_MemoryStorage:
  assumes "cdn_storage cdn = MemoryStorage_adapter"
  shows "\<exists>md. put_then_get sha256 cdn content metadata now now_s st =
     Inr (Some \<lparr>art_hash = sha256 (bytes_to_string (to_Uint8Array content)),
                art_body = OfArrayBuffer (u8_buffer (to_Uint8Array content)),
                art_metadata = md\<rparr>)"
  by (simp add: put_then_get_def CDN_put_MemoryStorage [OF assms] Let_def CDN_get_def assms
      MemoryStorage_adapter_def get_put_same)

text \<open>
  The body read back is the content when the content is an \<open>ArrayBuffer\<close>, or a
  \<open>Uint8Array\<close> that shows the whole of its buffer.
\<close>

lemma round_trip_whole_buffer:
  assumes "cdn_storage cdn = MemoryStorage_adapter"
    and "u8_byteOffset (to_Uint8Array content) = 0"
    and "u8_length (to_Uint8Array content) = length (u8_buffer (to_Uint8Array content))"
  shows "map_sum id (map_option art_body) (put_then_get sha256 cdn content metadata now now_s st)
     = Inr (Some (OfArrayBuffer (u8_elems (to_Uint8Array content))))"
proof -
  have "u8_elems (to_Uint8Array content) = u8_buffer (to_Uint8Array content)"
    using assms(2,3) by (simp add: u8_elems_def)
  moreover obtain md where
    "put_then_get sha256 cdn content metadata now now_s st =
       Inr (Some \<lparr>art_hash = sha256 (bytes_to_string (to_Uint8Array content)),
                  art_body = OfArrayBuffer (u8_buffer (to_Uint8Array content)),
                  art_metadata = md\<rparr>)"
    using put_then_get_MemoryStorage [OF assms(1)] by blast
  ultimately show ?thesis by simp
qed

lemma round_trip_ArrayBuffer:
  assumes "cdn_storage cdn = MemoryStorage_adapter"
  shows "map_sum id (map_option art_body) (put_then_get sha256 cdn (OfArrayBuffer b) metadata now now_s st)
     = Inr (Some (OfArrayBuffer b))"
  using round_trip_whole_buffer [OF assms, of "OfArrayBuffer b" sha256 metadata now now_s st]
  by (simp add: new_Uint8Array_def u8_elems_def)

text \<open>
  C2. The body read back is the whole buffer under the stored \<open>Uint8Array\<close>
  (\<open>stored.content.buffer\<close>), not the bytes the array shows: the content
  \<open>new Uint8Array([1, 2, 3]).subarray(1)\<close> has the bytes 2, 3, and after \<open>put\<close> of it \<open>get\<close>
  returns the body 1, 2, 3.
\<close>

theorem round_trip_subarray:
  "u8_wf subarray_2_3 \<and> u8_elems subarray_2_3 = [2, 3] \<and>
   map_sum id (map_option art_body)
     (put_then_get hex_sha256 test_cdn (OfUint8Array subarray_2_3) None 1000 1001 MemoryStorage_new)
     = Inr (Some (OfArrayBuffer [1, 2, 3]))"
  by code_simp

subsection \<open>Content types and URLs\<close>

text \<open>What \<open>detectContentType\<close> returns when the fallback is due.\<close>

lemma detectContentType_empty: "detectContentType [] defaultType = JString defaultType"
  by (simp add: detectContentType_def pop_def toLowerCase_def)

lemma detectContentType_unknown:
  assumes "CONTENT_TYPES_get (toLowerCase (last (split CHR ''.'' filename))) = None"
  shows "detectContentType filename defaultType = JString defaultType"
  using assms by (simp add: detectContentType_def pop_def split_not_Nil)

lemma detectContentType_scenarios:
  "detectContentType ''file.unknown'' default_defaultType = JString ''application/octet-stream''"
  "detectContentType ''file.unknown'' ''text/plain'' = JString ''text/plain''"
  "detectContentType ''noextension'' default_defaultType = JString ''application/octet-stream''"
  "detectContentType ''logo.PNG'' default_defaultType = JString ''image/png''"
  by code_simp+

text \<open>
  C7. \<open>detectContentType\<close> takes what follows the last dot of the file name, and the whole
  name when it has no dot: the name \<open>png\<close>, which has no extension, resolves to
  \<open>image/png\<close> and not to the fallback. The table is read as an object, so an extension
  that is a key of \<open>Object.prototype\<close> and not of the table (\<open>constructor\<close>) gives the
  inherited member and not the fallback.
\<close>

theorem detectContentType_name_without_dot:
  "detectContentType ''png'' ''application/octet-stream'' = JString ''image/png'' \<and>
   detectContentType ''file.constructor'' ''application/octet-stream'' = JInherited ''constructor''"
  by code_simp

text \<open>The path of the URL when no file name is given, and when the file name has no dot.\<close>

lemma put_urlPath_no_filename: "rd (md_filename md) = None \<Longrightarrow> put_urlPath md hash = hash"
  by (simp add: put_urlPath_def)

lemma put_urlPath_no_dot:
  "md_filename md = Val f \<Longrightarrow> CHR ''.'' \<notin> set f \<Longrightarrow> f \<noteq> [] \<Longrightarrow>
     put_urlPath md hash = hash @ ''.'' @ f"
  by (simp add: put_urlPath_def pop_def last_split_plain)

text \<open>
  C6. \<open>put\<close> appends what \<open>filename.split('.').pop()\<close> returns, which for a file name with
  no dot is the whole name: with the file name \<open>README\<close> the URL ends in \<open>.README\<close>.
\<close>

theorem put_url_filename_without_dot:
  "(case CDN_put hex_sha256 test_cdn (OfArrayBuffer [1, 2, 3])
           (Some (no_metadata\<lparr>md_filename := Val ''README''\<rparr>)) 1000 1001 MemoryStorage_new of
      Inl e \<Rightarrow> None
    | Inr (result, st) \<Rightarrow> Some (res_hash result, res_url result))
   = Some (''010203'', ''https://cdn.example.com/a/010203.README'')"
  by code_simp

text \<open>The metadata that \<open>put\<close> hands to a \<open>MemoryStorage\<close> is stored as it is.\<close>

lemma CDN_put_stores_metadata:
  assumes "cdn_storage cdn = MemoryStorage_adapter"
    and "CDN_put sha256 cdn content metadata now now_s st = Inr (result, st')"
  shows "MemoryStorage_get (res_hash result) st' =
     Some \<lparr>art_hash = res_hash result,
           art_body = OfArrayBuffer (u8_buffer (to_Uint8Array content)),
           art_metadata = res_metadata result\<rparr>"
  using assms(2)
  by (auto simp: CDN_put_MemoryStorage [OF assms(1)] Let_def get_put_same)

lemma CDN_put_contentType:
  assumes "CDN_put sha256 cdn content metadata now now_s st = Inr (result, st')"
  shows "md_contentType (res_metadata result) =
     Val (put_contentType (metadata_or_default metadata) (cdn_defaultContentType cdn))"
  using assms by (auto simp: CDN_put_def Let_def split: sum.splits)

text \<open>
  C8, as stated, fails for a content type that is supplied and empty: \<open>put\<close> tests
  \<open>metadata.contentType\<close> for truthiness, so with \<open>{contentType: '', filename: 'a.png'}\<close> the
  stored content type is \<open>image/png\<close>, not the empty string that was supplied.
\<close>

theorem put_empty_contentType_counterexample:
  "(case CDN_put hex_sha256 test_cdn (OfArrayBuffer [1, 2, 3])
           (Some (no_metadata\<lparr>md_contentType := Val (JString []), md_filename := Val ''a.png''\<rparr>))
           1000 1001 MemoryStorage_new of
      Inl e \<Rightarrow> None
    | Inr (result, st) \<Rightarrow>
        map_option (md_contentType \<circ> art_metadata) (MemoryStorage_get (res_hash result) st))
   = Some (Val (JString ''image/png''))"
  by code_simp

text \<open>
  C8, amended. The content type in the metadata that \<open>put\<close> hands to \<open>storage.put\<close> and
  returns is the supplied \<open>metadata.contentType\<close> when that is supplied and not empty;
  otherwise, when \<open>metadata.filename\<close> is supplied, what \<open>detectContentType\<close> resolves from the
  file name with \<open>defaultContentType\<close> as the fallback; otherwise \<open>defaultContentType\<close>. A
  \<open>MemoryStorage\<close> stores it as it is.
\<close>

theorem put_contentType_precedence:
  assumes "CDN_put sha256 cdn content metadata now now_s st = Inr (result, st')"
    and "md = metadata_or_default metadata"
    and "contentType = md_contentType (res_metadata result)"
  shows "(\<forall>c. md_contentType md = Val c \<and> truthy c \<longrightarrow> contentType = Val c) \<and>
    (\<forall>f. \<not> (\<exists>c. md_contentType md = Val c \<and> truthy c) \<and> md_filename md = Val f \<longrightarrow>
         contentType = Val (detectContentType f (cdn_defaultContentType cdn))) \<and>
    (\<not> (\<exists>c. md_contentType md = Val c \<and> truthy c) \<and> rd (md_filename md) = None \<longrightarrow>
         contentType = Val (JString (cdn_defaultContentType cdn))) \<and>
    (cdn_storage cdn = MemoryStorage_adapter \<longrightarrow>
         map_option (md_contentType \<circ> art_metadata) (MemoryStorage_get (res_hash result) st')
           = Some contentType)"
proof -
  have returned: "contentType = Val (put_contentType md (cdn_defaultContentType cdn))"
    using CDN_put_contentType [OF assms(1)] assms(2,3) by simp
  have explicit: "put_contentType md d = c" if "md_contentType md = Val c" "truthy c" for c d
    using that by (simp add: put_contentType_def)
  have inferred: "put_contentType md d = detectContentType f d"
    if "\<not> (\<exists>c. md_contentType md = Val c \<and> truthy c)" "md_filename md = Val f" for f d
    using that
    by (cases "md_contentType md") (auto simp: put_contentType_def detectContentType_empty)
  have fallback: "put_contentType md d = JString d"
    if "\<not> (\<exists>c. md_contentType md = Val c \<and> truthy c)" "rd (md_filename md) = None" for d
    using that
    by (cases "md_contentType md") (auto simp: put_contentType_def)
  have stored: "map_option (md_contentType \<circ> art_metadata) (MemoryStorage_get (res_hash result) st')
           = Some contentType"
    if "cdn_storage cdn = MemoryStorage_adapter"
    using CDN_put_stores_metadata [OF that assms(1)] assms(3) by simp
  show ?thesis
    using returned explicit inferred fallback stored by auto
qed

theorem put_contentType_precedence_witness:
  "\<exists>r1 st1 r2 st2 r3 st3.
     CDN_put hex_sha256 test_cdn (OfArrayBuffer [1, 2, 3])
       (Some (no_metadata\<lparr>md_filename := Val ''data.txt'', md_contentType := Val (JString ''application/json'')\<rparr>))
       1000 1001 MemoryStorage_new = Inr (r1, st1) \<and>
     md_contentType (res_metadata r1) = Val (JString ''application/json'') \<and>
     map_option (md_contentType \<circ> art_metadata) (MemoryStorage_get (res_hash r1) st1)
       = Some (Val (JString ''application/json'')) \<and>
     CDN_put hex_sha256 test_cdn (OfArrayBuffer [4, 5])
       (Some (no_metadata\<lparr>md_filename := Val ''logo.png''\<rparr>)) 2000 2001 st1 = Inr (r2, st2) \<and>
     md_contentType (res_metadata r2) = Val (JString ''image/png'') \<and>
     map_option (md_contentType \<circ> art_metadata) (MemoryStorage_get (res_hash r2) st2)
       = Some (Val (JString ''image/png'')) \<and>
     CDN_put hex_sha256 test_cdn (OfArrayBuffer [6]) None 3000 3001 st2 = Inr (r3, st3) \<and>
     md_contentType (res_metadata r3) = Val (JString ''application/octet-stream'') \<and>
     map_option (md_contentType \<circ> art_metadata) (MemoryStorage_get (res_hash r3) st3)
       = Some (Val (JString ''application/octet-stream''))"
proof -
  obtain r1 st1 where p1:
    "CDN_put hex_sha256 test_cdn (OfArrayBuffer [1, 2, 3])
       (Some (no_metadata\<lparr>md_filename := Val ''data.txt'', md_contentType := Val (JString ''application/json'')\<rparr>))
       1000 1001 MemoryStorage_new = Inr (r1, st1)"
    using CDN_put_MemoryStorage_returns [OF storage_test_cdn] by blast
  obtain r2 st2 where p2:
    "CDN_put hex_sha256 test_cdn (OfArrayBuffer [4, 5])
       (Some (no_metadata\<lparr>md_filename := Val ''logo.png''\<rparr>)) 2000 2001 st1 = Inr (r2, st2)"
    using CDN_put_MemoryStorage_returns [OF storage_test_cdn] by blast
  obtain r3 st3 where p3:
    "CDN_put hex_sha256 test_cdn (OfArrayBuffer [6]) None 3000 3001 st2 = Inr (r3, st3)"
    using CDN_put_MemoryStorage_returns [OF storage_test_cdn] by blast
  have png: "detectContentType ''logo.png'' ''application/octet-stream'' = JString ''image/png''"
    by code_simp
  have dflt: "cdn_defaultContentType test_cdn = ''application/octet-stream''"
    by (simp add: test_cdn_def CDN_new_def test_options_def)
  have "md_contentType (res_metadata r1) = Val (JString ''application/json'') \<and>
     map_option (md_contentType \<circ> art_metadata) (MemoryStorage_get (res_hash r1) st1)
       = Some (Val (JString ''application/json''))"
    using put_contentType_precedence [OF p1 refl refl] storage_test_cdn
    by (auto simp: metadata_or_default_def no_metadata_def)
  moreover have "md_contentType (res_metadata r2) = Val (JString ''image/png'') \<and>
     map_option (md_contentType \<circ> art_metadata) (MemoryStorage_get (res_hash r2) st2)
       = Some (Val (JString ''image/png''))"
    using put_contentType_precedence [OF p2 refl refl] png dflt storage_test_cdn
    by (auto simp: metadata_or_default_def no_metadata_def)
  moreover have "md_contentType (res_metadata r3) = Val (JString ''application/octet-stream'') \<and>
     map_option (md_contentType \<circ> art_metadata) (MemoryStorage_get (res_hash r3) st3)
       = Some (Val (JString ''application/octet-stream''))"
    using put_contentType_precedence [OF p3 refl refl] dflt storage_test_cdn
    by (auto simp: metadata_or_default_def no_metadata_def)
  ultimately show ?thesis
    using p1 p2 p3 by blast
qed

subsection \<open>The metadata after a repeated \<open>put\<close>\<close>

text \<open>A \<open>put\<close> into a \<open>MemoryStorage\<close> leaves the entries of the other keys as they were.\<close>

lemma get_put_other:
  "h \<noteq> hash \<Longrightarrow>
     MemoryStorage_get h (MemoryStorage_put hash content metadata now st) = MemoryStorage_get h st"
  by (simp add: MemoryStorage_get_def MemoryStorage_put_def Let_def update_conv')

text \<open>
  C3, as stated, fails: \<open>put\<close> calls \<open>storage.put\<close> whether the digest is stored or not, with
  the metadata of the call. After a first \<open>put\<close> at time 1000 the stored \<open>uploadedAt\<close> is
  1000; after a second \<open>put\<close> of the same bytes at time 2000 it is 2000.
\<close>

theorem repeated_put_uploadedAt_counterexample:
  "(case CDN_put_seq hex_sha256 test_cdn (OfArrayBuffer [1, 2, 3])
           [(None, 1000, 1001)] MemoryStorage_new of
      Inl e \<Rightarrow> None
    | Inr (results, st) \<Rightarrow>
        map_option (md_uploadedAt \<circ> art_metadata) (MemoryStorage_get ''010203'' st))
   = Some (Val 1000) \<and>
   (case CDN_put_seq hex_sha256 test_cdn (OfArrayBuffer [1, 2, 3])
           [(None, 1000, 1001), (None, 2000, 2001)] MemoryStorage_new of
      Inl e \<Rightarrow> None
    | Inr (results, st) \<Rightarrow>
        Some (map res_created results,
              map_option (md_uploadedAt \<circ> art_metadata) (MemoryStorage_get ''010203'' st)))
   = Some ([True, False], Some (Val 2000))"
  by code_simp

text \<open>
  C3, amended. A \<open>put\<close> of content whose digest is stored returns \<open>created = false\<close> and
  replaces the stored metadata of that digest by the metadata of this call: \<open>uploadedAt\<close> is
  the time of this call, \<open>size\<close> the length of the content, \<open>filename\<close> and \<open>customMetadata\<close>
  those of this call. The entries of the other digests are not changed.
\<close>

theorem repeated_put_replaces_metadata:
  assumes "cdn_storage cdn = MemoryStorage_adapter"
    and "MemoryStorage_exists (sha256 (bytes_to_string (to_Uint8Array content))) st"
    and "CDN_put sha256 cdn content metadata now now_s st = Inr (result, st')"
  shows "res_created result = False \<and>
    map_option art_metadata (MemoryStorage_get (res_hash result) st') = Some (res_metadata result) \<and>
    md_uploadedAt (res_metadata result) = Val now \<and>
    md_size (res_metadata result) = Val (int (u8_length (to_Uint8Array content))) \<and>
    md_filename (res_metadata result) = wr (rd (md_filename (metadata_or_default metadata))) \<and>
    md_customMetadata (res_metadata result) = wr (rd (md_customMetadata (metadata_or_default metadata))) \<and>
    (\<forall>h. h \<noteq> res_hash result \<longrightarrow> MemoryStorage_get h st' = MemoryStorage_get h st)"
proof -
  have stored: "map_option art_metadata (MemoryStorage_get (res_hash result) st') = Some (res_metadata result)"
    using CDN_put_stores_metadata [OF assms(1,3)] by simp
  show ?thesis
    using assms(2,3) stored
    by (auto simp: CDN_put_MemoryStorage [OF assms(1)] Let_def get_put_other)
qed

theorem repeated_put_replaces_metadata_witness:
  "\<exists>r1 st1 r2 st2.
     CDN_put hex_sha256 test_cdn (OfArrayBuffer [1, 2, 3])
       (Some (no_metadata\<lparr>md_filename := Val ''x.png''\<rparr>)) 1000 1001 MemoryStorage_new = Inr (r1, st1) \<and>
     MemoryStorage_exists ''010203'' st1 \<and>
     CDN_put hex_sha256 test_cdn (OfArrayBuffer [1, 2, 3])
       (Some (no_metadata\<lparr>md_filename := Val ''y.jpg''\<rparr>)) 2000 2001 st1 = Inr (r2, st2) \<and>
     res_created r2 = False \<and>
     map_option (md_uploadedAt \<circ> art_metadata) (MemoryStorage_get ''010203'' st2) = Some (Val 2000) \<and>
     map_option (md_filename \<circ> art_metadata) (MemoryStorage_get ''010203'' st2) = Some (Val ''y.jpg'')"
proof -
  obtain r1 st1 where p1:
    "CDN_put hex_sha256 test_cdn (OfArrayBuffer [1, 2, 3])
       (Some (no_metadata\<lparr>md_filename := Val ''x.png''\<rparr>)) 1000 1001 MemoryStorage_new = Inr (r1, st1)"
    using CDN_put_MemoryStorage_returns [OF storage_test_cdn] by blast
  obtain r2 st2 where p2:
    "CDN_put hex_sha256 test_cdn (OfArrayBuffer [1, 2, 3])
       (Some (no_metadata\<lparr>md_filename := Val ''y.jpg''\<rparr>)) 2000 2001 st1 = Inr (r2, st2)"
    using CDN_put_MemoryStorage_returns [OF storage_test_cdn] by blast
  have digest: "hex_sha256 (bytes_to_string (to_Uint8Array (OfArrayBuffer [1, 2, 3]))) = ''010203''"
    by code_simp
  have h1: "res_hash r1 = ''010203''" and h2: "res_hash r2 = ''010203''"
    using p1 p2 digest by (auto simp: CDN_put_MemoryStorage [OF storage_test_cdn] Let_def)
  have stored1: "MemoryStorage_exists ''010203'' st1"
    using p1 digest
    by (auto simp: CDN_put_MemoryStorage [OF storage_test_cdn] Let_def exists_put)
  then have pre: "MemoryStorage_exists (hex_sha256 (bytes_to_string (to_Uint8Array (OfArrayBuffer [1, 2, 3])))) st1"
    using digest by simp
  have "res_created r2 = False \<and>
     map_option (md_uploadedAt \<circ> art_metadata) (MemoryStorage_get ''010203'' st2) = Some (Val 2000) \<and>
     map_option (md_filename \<circ> art_metadata) (MemoryStorage_get ''010203'' st2) = Some (Val ''y.jpg'')"
    using repeated_put_replaces_metadata [OF storage_test_cdn pre p2] h2
    by (auto simp: metadata_or_default_def no_metadata_def)
  then show ?thesis
    using p1 p2 stored1 by blast
qed

subsection \<open>\<open>GET\<close> with an extension\<close>

text \<open>The literal header values of \<open>handleRequest\<close> are legal, so only the response to a
  \<open>GET\<close> that finds the artifact can be refused by \<open>new Response\<close>.\<close>

lemma cors_values_legal:
  "legal_header_value ''*''"
  "legal_header_value ''GET, PUT, DELETE, OPTIONS''"
  "legal_header_value ''Content-Type, X-Filename''"
  "legal_header_value ''86400''"
  "legal_header_value ''application/json''"
  by code_simp+

lemma literal_headers_legal:
  "legal_headers engine (getCORSHeaders cdn [])"
  "legal_headers engine (getCORSHeaders cdn [(''Content-Type'', JString ''application/json'')])"
  using cors_values_legal
  by (simp_all add: legal_headers_def getCORSHeaders_def spread_objects_def header_text_def)

text \<open>
  The headers of a found artifact are legal when the content type, the \<open>Cache-Control\<close>
  value and the \<open>ETag\<close> value are.
\<close>

lemma get_headers_legal:
  "legal_headers engine (get_headers engine cdn hash artifact) \<longleftrightarrow>
     legal_header_value (header_text engine (response_contentType cdn artifact)) \<and>
     legal_header_value (''public, max-age='' @ eng_number_text engine (cdn_cacheMaxAge cdn) @ '', immutable'') \<and>
     legal_header_value ([CHR 0x22] @ hash @ [CHR 0x22])"
  using cors_values_legal
  by (simp add: legal_headers_def get_headers_def getCORSHeaders_def spread_objects_def header_text_def)

lemma get_headers_ETag:
  "map_of (get_headers engine cdn hash artifact) ''ETag'' = Some (JString ([CHR 0x22] @ hash @ [CHR 0x22]))"
  by (simp add: get_headers_def getCORSHeaders_def spread_objects_def update_conv')

text \<open>
  A stored content type with a line feed inside: \<open>new Response\<close> throws and the answer is
  500.
\<close>

lemma get_refused_contentType:
  "(case CDN_put hex_sha256 test_cdn (OfArrayBuffer [1, 2, 3])
           (Some (no_metadata\<lparr>md_contentType := Val (JString (''text/plain'' @ [CHR 0x0A] @ ''X: y''))\<rparr>))
           1000 1001 MemoryStorage_new of
      Inl e \<Rightarrow> None
    | Inr (result, st) \<Rightarrow>
        Some (rs_status (fst (CDN_handleRequest hex_sha256 test_engine test_cdn
                \<lparr>rq_method = ''GET'', rq_pathname = ''/a/010203.txt'', rq_query_filename = None,
                 rq_header_x_filename = None, rq_header_content_type = None, rq_arrayBuffer = Inr []\<rparr>
                2000 2001 st))))
   = Some 500"
  by code_simp

text \<open>
  C5. For a digest \<open>h\<close> (a hexadecimal string, so without a dot) and any suffix \<open>s\<close>, the
  requests \<open>GET\<close> whose paths (\<open>url.pathname\<close>) are \<open>/a/h.s\<close> and \<open>/a/h\<close> get the same
  response in the same state of the storage: the same status, headers and body. When the
  storage has an artifact for \<open>h\<close> and \<open>new Response\<close> takes the header values (the stored
  content type, the \<open>Cache-Control\<close> and the \<open>ETag\<close> have no NUL, LF or CR inside), the
  response has status 200, the body of that artifact and the \<open>ETag\<close> header \<open>"h"\<close>; when
  it refuses one of them, both requests get the response 500 of the \<open>catch\<close>.
\<close>

theorem get_ignores_extension:
  assumes "CHR ''.'' \<notin> set h"
    and "with_ext = request\<lparr>rq_method := ''GET'', rq_pathname := ''/a/'' @ h @ ''.'' @ s\<rparr>"
    and "without_ext = request'\<lparr>rq_method := ''GET'', rq_pathname := ''/a/'' @ h\<rparr>"
  shows "CDN_handleRequest sha256 engine cdn with_ext now now_s st
           = CDN_handleRequest sha256 engine cdn without_ext now' now_s' st \<and>
    (\<forall>artifact. CDN_get cdn h st = Inr (Some artifact) \<and>
         legal_headers engine (get_headers engine cdn h artifact) \<longrightarrow>
       rs_status (fst (CDN_handleRequest sha256 engine cdn with_ext now now_s st)) = 200 \<and>
       rs_body (fst (CDN_handleRequest sha256 engine cdn with_ext now now_s st)) = ArtifactBody (art_body artifact) \<and>
       map_of (rs_headers (fst (CDN_handleRequest sha256 engine cdn with_ext now now_s st))) ''ETag''
         = Some (JString ([CHR 0x22] @ h @ [CHR 0x22]))) \<and>
    (\<forall>artifact. CDN_get cdn h st = Inr (Some artifact) \<and>
         \<not> legal_headers engine (get_headers engine cdn h artifact) \<longrightarrow>
       fst (CDN_handleRequest sha256 engine cdn with_ext now now_s st) = internal_server_error cdn)"
proof -
  have ext: "CDN_handleRequest sha256 engine cdn with_ext now now_s st = (handle_get engine cdn with_ext st, st)"
    using startsWith_a [of "h @ ''.'' @ s"] by (simp add: CDN_handleRequest_def assms(2))
  have plain: "CDN_handleRequest sha256 engine cdn without_ext now' now_s' st
      = (handle_get engine cdn without_ext st, st)"
    using startsWith_a [of h] by (simp add: CDN_handleRequest_def assms(3))
  have hash_ext: "path_hash (rq_pathname with_ext) = h"
    using path_hash_ext [OF assms(1), of s] by (simp add: assms(2))
  have hash_plain: "path_hash (rq_pathname without_ext) = h"
    using path_hash_plain [OF assms(1)] by (simp add: assms(3))
  have same: "handle_get engine cdn with_ext st = handle_get engine cdn without_ext st"
    by (simp add: handle_get_def hash_ext hash_plain)
  have found: "rs_status (handle_get engine cdn with_ext st) = 200 \<and>
       rs_body (handle_get engine cdn with_ext st) = ArtifactBody (art_body artifact) \<and>
       map_of (rs_headers (handle_get engine cdn with_ext st)) ''ETag'' = Some (JString ([CHR 0x22] @ h @ [CHR 0x22]))"
    if "CDN_get cdn h st = Inr (Some artifact)" "legal_headers engine (get_headers engine cdn h artifact)"
    for artifact
    using that by (simp add: handle_get_def hash_ext Let_def new_Response_def get_headers_ETag)
  have refused: "handle_get engine cdn with_ext st = internal_server_error cdn"
    if "CDN_get cdn h st = Inr (Some artifact)" "\<not> legal_headers engine (get_headers engine cdn h artifact)"
    for artifact
    using that by (simp add: handle_get_def hash_ext Let_def new_Response_def)
  show ?thesis
    using ext plain same found refused by simp
qed

theorem get_ignores_extension_witness:
  "\<exists>result st.
     CDN_put hex_sha256 test_cdn (OfArrayBuffer [1, 2, 3])
       (Some (no_metadata\<lparr>md_filename := Val ''test.png''\<rparr>)) 1000 1001 MemoryStorage_new = Inr (result, st) \<and>
     res_hash result = ''010203'' \<and>
     CDN_handleRequest hex_sha256 test_engine test_cdn
       \<lparr>rq_method = ''GET'', rq_pathname = ''/a/010203.png'', rq_query_filename = None,
        rq_header_x_filename = None, rq_header_content_type = None, rq_arrayBuffer = Inr []\<rparr> 2000 2001 st
     = CDN_handleRequest hex_sha256 test_engine test_cdn
       \<lparr>rq_method = ''GET'', rq_pathname = ''/a/010203'', rq_query_filename = None,
        rq_header_x_filename = None, rq_header_content_type = None, rq_arrayBuffer = Inr []\<rparr> 3000 3001 st \<and>
     rs_status (fst (CDN_handleRequest hex_sha256 test_engine test_cdn
       \<lparr>rq_method = ''GET'', rq_pathname = ''/a/010203.png'', rq_query_filename = None,
        rq_header_x_filename = None, rq_header_content_type = None, rq_arrayBuffer = Inr []\<rparr> 2000 2001 st)) = 200 \<and>
     rs_body (fst (CDN_handleRequest hex_sha256 test_engine test_cdn
       \<lparr>rq_method = ''GET'', rq_pathname = ''/a/010203.png'', rq_query_filename = None,
        rq_header_x_filename = None, rq_header_content_type = None, rq_arrayBuffer = Inr []\<rparr> 2000 2001 st))
       = ArtifactBody (OfArrayBuffer [1, 2, 3]) \<and>
     map_of (rs_headers (fst (CDN_handleRequest hex_sha256 test_engine test_cdn
       \<lparr>rq_method = ''GET'', rq_pathname = ''/a/010203.png'', rq_query_filename = None,
        rq_header_x_filename = None, rq_header_content_type = None, rq_arrayBuffer = Inr []\<rparr> 2000 2001 st))) ''ETag''
       = Some (JString ([CHR 0x22] @ ''010203'' @ [CHR 0x22]))"
proof -
  obtain result st where p:
    "CDN_put hex_sha256 test_cdn (OfArrayBuffer [1, 2, 3])
       (Some (no_metadata\<lparr>md_filename := Val ''test.png''\<rparr>)) 1000 1001 MemoryStorage_new = Inr (result, st)"
    using CDN_put_MemoryStorage_returns [OF storage_test_cdn] by blast
  have digest: "hex_sha256 (bytes_to_string (to_Uint8Array (OfArrayBuffer [1, 2, 3]))) = ''010203''"
    by code_simp
  have h: "res_hash result = ''010203''"
    using p digest by (auto simp: CDN_put_MemoryStorage [OF storage_test_cdn] Let_def)
  have nodot: "CHR ''.'' \<notin> set ''010203''"
    by simp
  let ?artifact = "\<lparr>art_hash = ''010203'', art_body = OfArrayBuffer [1, 2, 3], art_metadata = res_metadata result\<rparr>"
  have got: "CDN_get test_cdn ''010203'' st = Inr (Some ?artifact)"
    using CDN_put_stores_metadata [OF storage_test_cdn p] h
    by (simp add: CDN_get_def storage_test_cdn MemoryStorage_adapter_def new_Uint8Array_def)
  have png: "put_contentType (metadata_or_default (Some (no_metadata\<lparr>md_filename := Val ''test.png''\<rparr>)))
      (cdn_defaultContentType test_cdn) = JString ''image/png''"
    by code_simp
  have ct: "response_contentType test_cdn ?artifact = JString ''image/png''"
    using CDN_put_contentType [OF p] png by (simp add: response_contentType_def)
  have texts: "legal_header_value ''image/png''"
    "legal_header_value (''public, max-age='' @ eng_number_text test_engine (cdn_cacheMaxAge test_cdn) @ '', immutable'')"
    "legal_header_value ([CHR 0x22] @ ''010203'' @ [CHR 0x22])"
    by code_simp+
  have legal: "legal_headers test_engine (get_headers test_engine test_cdn ''010203'' ?artifact)"
    using texts by (simp add: get_headers_legal ct header_text_def)
  let ?rq = "\<lparr>rq_method = ''GET'', rq_pathname = ''/a/010203'', rq_query_filename = None,
        rq_header_x_filename = None, rq_header_content_type = None, rq_arrayBuffer = Inr []\<rparr>"
  let ?with_ext = "?rq\<lparr>rq_method := ''GET'', rq_pathname := ''/a/'' @ ''010203'' @ ''.'' @ ''png''\<rparr>"
  let ?without_ext = "?rq\<lparr>rq_method := ''GET'', rq_pathname := ''/a/'' @ ''010203''\<rparr>"
  have "CDN_handleRequest hex_sha256 test_engine test_cdn ?with_ext 2000 2001 st
           = CDN_handleRequest hex_sha256 test_engine test_cdn ?without_ext 3000 3001 st \<and>
    (\<forall>artifact. CDN_get test_cdn ''010203'' st = Inr (Some artifact) \<and>
         legal_headers test_engine (get_headers test_engine test_cdn ''010203'' artifact) \<longrightarrow>
       rs_status (fst (CDN_handleRequest hex_sha256 test_engine test_cdn ?with_ext 2000 2001 st)) = 200 \<and>
       rs_body (fst (CDN_handleRequest hex_sha256 test_engine test_cdn ?with_ext 2000 2001 st)) = ArtifactBody (art_body artifact) \<and>
       map_of (rs_headers (fst (CDN_handleRequest hex_sha256 test_engine test_cdn ?with_ext 2000 2001 st))) ''ETag''
         = Some (JString ([CHR 0x22] @ ''010203'' @ [CHR 0x22]))) \<and>
    (\<forall>artifact. CDN_get test_cdn ''010203'' st = Inr (Some artifact) \<and>
         \<not> legal_headers test_engine (get_headers test_engine test_cdn ''010203'' artifact) \<longrightarrow>
       fst (CDN_handleRequest hex_sha256 test_engine test_cdn ?with_ext 2000 2001 st) = internal_server_error test_cdn)"
    by (rule get_ignores_extension [OF nodot refl refl])
  then show ?thesis
    using got legal p h by auto
qed

subsection \<open>Repeated \<open>put\<close>: digests, \<open>created\<close> and writes\<close>

text \<open>The keys of a \<open>MemoryStorage\<close> after a \<open>put\<close>.\<close>

lemma keys_put:
  "map fst (MemoryStorage_put hash content metadata now st) =
     (if MemoryStorage_exists hash st then map fst st else map fst st @ [hash])"
  by (simp add: MemoryStorage_put_def Let_def update_keys MemoryStorage_exists_def Map_has_def)

lemma put_then_exists_MemoryStorage: "put_then_exists MemoryStorage_adapter"
  by (simp add: put_then_exists_def MemoryStorage_adapter_def exists_put)

text \<open>
  One \<open>put\<close> over an adapter whose writes are counted: it returns, with the digest of the
  content and \<open>created\<close> the negation of what \<open>exists\<close> answered; the adapter has one more
  write and the digest exists.
\<close>

lemma CDN_put_counting:
  assumes "cdn_storage cdn = counting A"
    and "put_then_exists A"
    and "sa_exists A (sha256 (bytes_to_string (to_Uint8Array content))) st = Inr existed"
  shows "\<exists>result st'.
     CDN_put sha256 cdn content metadata now now_s (st, writes) = Inr (result, (st', Suc writes)) \<and>
     res_hash result = sha256 (bytes_to_string (to_Uint8Array content)) \<and>
     res_created result = (\<not> existed) \<and>
     sa_exists A (sha256 (bytes_to_string (to_Uint8Array content))) st' = Inr True"
proof -
  let ?digest = "sha256 (bytes_to_string (to_Uint8Array content))"
  let ?full = "\<lparr>md_contentType = Val (put_contentType (metadata_or_default metadata) (cdn_defaultContentType cdn)),
                md_filename = wr (rd (md_filename (metadata_or_default metadata))),
                md_size = Val (int (u8_length (to_Uint8Array content))),
                md_uploadedAt = Val now,
                md_customMetadata = wr (rd (md_customMetadata (metadata_or_default metadata)))\<rparr>"
  obtain st' where written:
    "sa_put A ?digest (OfUint8Array (to_Uint8Array content)) (Some ?full) now_s st = Inr st'"
    "sa_exists A ?digest st' = Inr True"
    using assms(2) unfolding put_then_exists_def by blast
  show ?thesis
    using assms(3) written
    by (simp add: CDN_put_def assms(1) counting_def Let_def)
qed

text \<open>Calls of \<open>put\<close> with content whose digest is stored: every one writes, none creates.\<close>

lemma CDN_put_seq_stored:
  assumes "cdn_storage cdn = counting A"
    and "put_then_exists A"
    and "sa_exists A (sha256 (bytes_to_string (to_Uint8Array content))) st = Inr True"
  shows "\<exists>results st'.
     CDN_put_seq sha256 cdn content calls (st, writes) = Inr (results, (st', writes + length calls)) \<and>
     map res_hash results = replicate (length calls) (sha256 (bytes_to_string (to_Uint8Array content))) \<and>
     map res_created results = replicate (length calls) False \<and>
     sa_exists A (sha256 (bytes_to_string (to_Uint8Array content))) st' = Inr True"
  using assms(3)
proof (induction calls arbitrary: st writes)
  case Nil
  then show ?case by simp
next
  case (Cons call calls)
  let ?digest = "sha256 (bytes_to_string (to_Uint8Array content))"
  obtain metadata now now_s where call: "call = (metadata, now, now_s)"
    by (cases call) auto
  obtain result st1 where step:
    "CDN_put sha256 cdn content metadata now now_s (st, writes) = Inr (result, (st1, Suc writes))"
    "res_hash result = ?digest" "res_created result = False"
    "sa_exists A ?digest st1 = Inr True"
    using CDN_put_counting [of cdn A sha256 content st True metadata now now_s writes,
        OF assms(1,2) Cons.prems]
    by auto
  obtain results st' where rest:
    "CDN_put_seq sha256 cdn content calls (st1, Suc writes) = Inr (results, (st', Suc writes + length calls))"
    "map res_hash results = replicate (length calls) ?digest"
    "map res_created results = replicate (length calls) False"
    "sa_exists A ?digest st' = Inr True"
    using Cons.IH [OF step(4), of "Suc writes"] by blast
  show ?case
    using step rest by (simp add: call)
qed

text \<open>
  C1, as stated, fails in its middle part: \<open>put\<close> calls \<open>storage.put\<close> on every call. Two
  calls with the same bytes, from an empty storage, return the same digest, \<open>created\<close> true
  and then false, and the backend has received two writes, not at most one.
\<close>

theorem put_twice_writes_twice_counterexample:
  "(case CDN_put_seq hex_sha256 counting_cdn (OfArrayBuffer [1, 2, 3])
           [(None, 1000, 1001), (None, 2000, 2001)] (MemoryStorage_new, 0) of
      Inl e \<Rightarrow> None
    | Inr (results, st, writes) \<Rightarrow>
        Some (map res_hash results, map res_created results, writes))
   = Some ([''010203'', ''010203''], [True, False], 2)"
  by code_simp

text \<open>
  C1, amended. Over a storage adapter \<open>A\<close> whose \<open>exists\<close> and \<open>put\<close> do not throw and whose
  \<open>exists(hash)\<close> is true after \<open>put(hash, ...)\<close>, from a state where the digest of the
  content is not stored, \<open>N \<ge> 1\<close> calls of \<open>put\<close> with that content, one after the other, all
  return: every call returns the same digest, the first returns \<open>created = true\<close> and every
  later one \<open>created = false\<close>, and every call writes to the backend (\<open>N\<close> writes). The
  calls may differ in their metadata arguments and clock readings.
\<close>

theorem put_repeated:
  assumes "cdn_storage cdn = counting A"
    and "put_then_exists A"
    and "sa_exists A (sha256 (bytes_to_string (to_Uint8Array content))) st = Inr False"
    and "calls \<noteq> []"
  shows "\<exists>results st'.
     CDN_put_seq sha256 cdn content calls (st, writes) = Inr (results, (st', writes + length calls)) \<and>
     map res_hash results = replicate (length calls) (sha256 (bytes_to_string (to_Uint8Array content))) \<and>
     map res_created results = True # replicate (length calls - 1) False \<and>
     sa_exists A (sha256 (bytes_to_string (to_Uint8Array content))) st' = Inr True"
proof -
  let ?digest = "sha256 (bytes_to_string (to_Uint8Array content))"
  obtain metadata now now_s rest where calls: "calls = (metadata, now, now_s) # rest"
    using assms(4) by (cases calls) auto
  obtain result st1 where first:
    "CDN_put sha256 cdn content metadata now now_s (st, writes) = Inr (result, (st1, Suc writes))"
    "res_hash result = ?digest" "res_created result = True"
    "sa_exists A ?digest st1 = Inr True"
    using CDN_put_counting [of cdn A sha256 content st False metadata now now_s writes,
        OF assms(1,2,3)]
    by auto
  obtain results st' where later:
    "CDN_put_seq sha256 cdn content rest (st1, Suc writes) = Inr (results, (st', Suc writes + length rest))"
    "map res_hash results = replicate (length rest) ?digest"
    "map res_created results = replicate (length rest) False"
    "sa_exists A ?digest st' = Inr True"
    using CDN_put_seq_stored [of cdn A sha256 content st1 rest "Suc writes", OF assms(1,2) first(4)]
    by blast
  show ?thesis
    using first later by (simp add: calls)
qed

theorem put_repeated_witness:
  "\<exists>results st'.
     CDN_put_seq hex_sha256 counting_cdn (OfArrayBuffer [1, 2, 3])
       [(None, 1000, 1001), (None, 2000, 2001), (None, 3000, 3001)] (filled 2, 2)
       = Inr (results, (st', 5)) \<and>
     map res_hash results = [''010203'', ''010203'', ''010203''] \<and>
     map res_created results = [True, False, False] \<and>
     MemoryStorage_exists ''010203'' st'"
proof -
  have digest: "hex_sha256 (bytes_to_string (to_Uint8Array (OfArrayBuffer [1, 2, 3]))) = ''010203''"
    by code_simp
  have fresh: "sa_exists MemoryStorage_adapter
       (hex_sha256 (bytes_to_string (to_Uint8Array (OfArrayBuffer [1, 2, 3])))) (filled 2) = Inr False"
    by code_simp
  have calls: "[(None :: ArtifactMetadata option, 1000 :: int, 1001 :: int), (None, 2000, 2001), (None, 3000, 3001)] \<noteq> []"
    by simp
  have exists: "sa_exists MemoryStorage_adapter h st = Inr True \<longleftrightarrow> MemoryStorage_exists h st" for h st
    by (simp add: MemoryStorage_adapter_def)
  show ?thesis
    using put_repeated
        [of counting_cdn MemoryStorage_adapter hex_sha256 "OfArrayBuffer [1, 2, 3]" "filled 2"
            "[(None, 1000, 1001), (None, 2000, 2001), (None, 3000, 3001)]" 2,
         OF storage_counting_cdn put_then_exists_MemoryStorage fresh calls]
      digest exists
    by (simp del: CDN_put_seq.simps add: eval_nat_numeral)
qed

subsection \<open>The states of a \<open>MemoryStorage\<close>\<close>

text \<open>The keys of a reachable \<open>MemoryStorage\<close> are distinct, as those of a \<open>Map\<close> are.\<close>

lemma reachable_distinct: "reachable st \<Longrightarrow> distinct (map fst st)"
proof (induction rule: reachable.induct)
  case reachable_new
  then show ?case by (simp add: MemoryStorage_new_def)
next
  case (reachable_put st hash content metadata now)
  then show ?case by (simp add: MemoryStorage_put_def Let_def distinct_update)
next
  case (reachable_delete st hash)
  then show ?case by (simp add: MemoryStorage_delete_def distinct_delete)
next
  case (reachable_clear st)
  then show ?case by (simp add: MemoryStorage_clear_def)
qed

text \<open>\<open>slice(0, n)\<close> for \<open>n \<ge> 0\<close> is the first \<open>n\<close> elements; a slice has elements of the array only.\<close>

lemma slice_0: "0 \<le> n \<Longrightarrow> slice xs 0 n = take (nat n) xs"
  by (simp add: slice_def slice_index_def Let_def min_def)

lemma set_slice: "set (slice xs b e) \<subseteq> set xs"
proof -
  have "set (slice xs b e) \<subseteq> set (drop (slice_index (length xs) b) xs)"
    by (simp add: slice_def Let_def set_take_subset)
  also have "\<dots> \<subseteq> set xs"
    by (rule set_drop_subset)
  finally show ?thesis .
qed

lemma list_default: "MemoryStorage_list None st = take 1000 (map fst st)"
  by (simp add: MemoryStorage_list_def Let_def slice_0)

lemma list_limit:
  "0 \<le> n \<Longrightarrow>
     MemoryStorage_list (Some \<lparr>lo_limit = Some n, lo_cursor = c\<rparr>) st = take (nat n) (map fst st)"
  by (simp add: MemoryStorage_list_def Let_def slice_0)

lemma list_subset: "set (MemoryStorage_list options st) \<subseteq> set (map fst st)"
  unfolding MemoryStorage_list_def Let_def by (rule set_slice)

text \<open>The storage \<open>filled n\<close>: its keys, in the order of insertion.\<close>

lemma key_of_inj: "key_of i = key_of j \<longleftrightarrow> i = j"
proof
  assume "key_of i = key_of j"
  then have "length (key_of i) = length (key_of j)" by simp
  then show "i = j" by (simp add: key_of_def)
qed simp

lemma filled_Suc:
  "filled (Suc n) = MemoryStorage_put (key_of n) (OfArrayBuffer [1]) None 0 (filled n)"
  by (simp add: filled_def)

lemma keys_filled: "map fst (filled n) = map key_of [0..<n]"
proof (induction n)
  case 0
  then show ?case by (simp add: filled_def MemoryStorage_new_def)
next
  case (Suc n)
  have "\<not> MemoryStorage_exists (key_of n) (filled n)"
    by (auto simp: MemoryStorage_exists_def Map_has_def Suc.IH key_of_inj)
  then show ?case
    by (simp add: filled_Suc keys_put Suc.IH)
qed

lemma reachable_filled: "reachable (filled n)"
proof (induction n)
  case 0
  have "filled 0 = MemoryStorage_new" by (simp add: filled_def)
  then show ?case by (simp add: reachable_new)
next
  case (Suc n)
  then show ?case by (simp add: filled_Suc reachable_put)
qed

text \<open>
  C10, as stated, fails in the part on \<open>list()\<close>: \<open>list\<close> returns the first
  \<open>options.limit ?? 1000\<close> keys. After 1001 calls of \<open>put\<close> with distinct keys, the last key
  is stored, and \<open>list()\<close> does not have it.
\<close>

theorem list_misses_key_counterexample:
  "reachable (filled 1001) \<and>
   MemoryStorage_exists (key_of 1000) (filled 1001) \<and>
   MemoryStorage_get (key_of 1000) (filled 1001) \<noteq> None \<and>
   key_of 1000 \<notin> set (MemoryStorage_list None (filled 1001))"
proof -
  have keys: "map fst (filled 1001) = map key_of [0..<1001]"
    by (rule keys_filled)
  have stored: "MemoryStorage_exists (key_of 1000) (filled 1001)"
    by (simp add: MemoryStorage_exists_def Map_has_def keys)
  have got: "MemoryStorage_get (key_of 1000) (filled 1001) \<noteq> None"
    using stored
    by (auto simp: MemoryStorage_exists_def Map_has_map_of MemoryStorage_get_def split: option.splits)
  have "MemoryStorage_list None (filled 1001) = map key_of [0..<1000]"
    by (simp add: list_default keys take_map)
  then have missing: "key_of 1000 \<notin> set (MemoryStorage_list None (filled 1001))"
    by (auto simp: key_of_inj)
  show ?thesis
    using reachable_filled stored got missing by simp
qed

text \<open>
  C10, amended. In every reachable state of a \<open>MemoryStorage\<close> and for every hash \<open>h\<close>:
  \<open>exists(h)\<close> is true if and only if \<open>get(h)\<close> is not null; every hash that \<open>list\<close>
  returns exists; \<open>h\<close> exists if and only if it is in \<open>list()\<close> while the storage has at most
  1000 entries, and if and only if it is in \<open>list({limit: n})\<close> when \<open>n\<close> is at least the number
  of entries; \<open>delete(h)\<close> returns true exactly when \<open>h\<close> existed and leaves \<open>exists(h)\<close> false;
  \<open>put(h, c, m)\<close> leaves \<open>exists(h)\<close> true.
\<close>

theorem MemoryStorage_consistent:
  assumes "reachable st"
  shows "(MemoryStorage_exists h st \<longleftrightarrow> MemoryStorage_get h st \<noteq> None) \<and>
    (h \<in> set (MemoryStorage_list options st) \<longrightarrow> MemoryStorage_exists h st) \<and>
    (MemoryStorage_size st \<le> 1000 \<longrightarrow>
       (MemoryStorage_exists h st \<longleftrightarrow> h \<in> set (MemoryStorage_list None st))) \<and>
    (\<forall>n cursor. int (MemoryStorage_size st) \<le> n \<longrightarrow>
       (MemoryStorage_exists h st \<longleftrightarrow>
          h \<in> set (MemoryStorage_list (Some \<lparr>lo_limit = Some n, lo_cursor = cursor\<rparr>) st))) \<and>
    (fst (MemoryStorage_delete h st) \<longleftrightarrow> MemoryStorage_exists h st) \<and>
    \<not> MemoryStorage_exists h (snd (MemoryStorage_delete h st)) \<and>
    MemoryStorage_exists h (MemoryStorage_put h content metadata now st)"
proof -
  have get: "MemoryStorage_exists h st \<longleftrightarrow> MemoryStorage_get h st \<noteq> None"
    by (auto simp: MemoryStorage_exists_def Map_has_map_of MemoryStorage_get_def split: option.splits)
  have listed: "h \<in> set (MemoryStorage_list options st) \<longrightarrow> MemoryStorage_exists h st"
    using list_subset [of options st] by (auto simp: MemoryStorage_exists_def Map_has_def)
  have list_all: "MemoryStorage_size st \<le> 1000 \<longrightarrow>
       (MemoryStorage_exists h st \<longleftrightarrow> h \<in> set (MemoryStorage_list None st))"
    by (simp add: list_default MemoryStorage_size_def MemoryStorage_exists_def Map_has_def)
  have list_n: "MemoryStorage_exists h st \<longleftrightarrow>
          h \<in> set (MemoryStorage_list (Some \<lparr>lo_limit = Some n, lo_cursor = cursor\<rparr>) st)"
    if "int (MemoryStorage_size st) \<le> n" for n cursor
  proof -
    have "0 \<le> n" and "length (map fst st) \<le> nat n"
      using that by (simp_all add: MemoryStorage_size_def)
    then show ?thesis
      by (simp add: list_limit MemoryStorage_exists_def Map_has_def)
  qed
  have del: "(fst (MemoryStorage_delete h st) \<longleftrightarrow> MemoryStorage_exists h st) \<and>
      \<not> MemoryStorage_exists h (snd (MemoryStorage_delete h st))"
    by (simp add: MemoryStorage_delete_def MemoryStorage_exists_def Map_has_delete)
  have put: "MemoryStorage_exists h (MemoryStorage_put h content metadata now st)"
    by (simp add: exists_put)
  show ?thesis
    using get listed list_all list_n del put by blast
qed

theorem MemoryStorage_consistent_witness:
  "reachable (filled 2) \<and>
   MemoryStorage_exists ''aa'' (filled 2) \<and>
   MemoryStorage_get ''aa'' (filled 2) \<noteq> None \<and>
   ''aa'' \<in> set (MemoryStorage_list None (filled 2)) \<and>
   ''aa'' \<in> set (MemoryStorage_list (Some \<lparr>lo_limit = Some 2, lo_cursor = None\<rparr>) (filled 2)) \<and>
   fst (MemoryStorage_delete ''aa'' (filled 2)) \<and>
   \<not> MemoryStorage_exists ''aa'' (snd (MemoryStorage_delete ''aa'' (filled 2))) \<and>
   \<not> MemoryStorage_exists ''b'' (filled 2) \<and>
   MemoryStorage_get ''b'' (filled 2) = None \<and>
   ''b'' \<notin> set (MemoryStorage_list None (filled 2)) \<and>
   \<not> fst (MemoryStorage_delete ''b'' (filled 2)) \<and>
   MemoryStorage_exists ''b'' (MemoryStorage_put ''b'' (OfArrayBuffer [7]) None 5 (filled 2))"
proof -
  have stored: "MemoryStorage_exists ''aa'' (filled 2)" and absent: "\<not> MemoryStorage_exists ''b'' (filled 2)"
    by code_simp+
  have small: "MemoryStorage_size (filled 2) \<le> 1000" and n: "int (MemoryStorage_size (filled 2)) \<le> 2"
    by code_simp+
  show ?thesis
    using MemoryStorage_consistent [OF reachable_filled, of "''aa''" 2 None "OfArrayBuffer [7]" None 5]
      MemoryStorage_consistent [OF reachable_filled, of "''b''" 2 None "OfArrayBuffer [7]" None 5]
      reachable_filled [of 2] stored absent small n
    by blast
qed

end
